theory Spec2Isabelle
  imports Main "HOL-Library.Sublist"
begin

section \<open>Strings\<close>

text \<open>
  Python strings and byte strings are lists of bytes (\<open>char\<close>); text is read as UTF-8.
  The operations below are the string methods the scripts call. \<open>str.lower\<close> is modelled
  on the ASCII letters: the scripts only test the lowered name for a suffix made of a dot
  and ASCII letters and digits, and no other character lowers to one of those.
\<close>

type_synonym bytes = "char list"

definition ascii_uppercase :: string where
  "ascii_uppercase = ''ABCDEFGHIJKLMNOPQRSTUVWXYZ''"

definition ascii_lowercase :: string where
  "ascii_lowercase = ''abcdefghijklmnopqrstuvwxyz''"

definition lower_char :: "char \<Rightarrow> char" where
  "lower_char c = (case map_of (zip ascii_uppercase ascii_lowercase) c of Some l \<Rightarrow> l | None \<Rightarrow> c)"

definition lower :: "string \<Rightarrow> string" where
  "lower s = map lower_char s"

definition endswith :: "string \<Rightarrow> string \<Rightarrow> bool" where
  "endswith s suf = (length suf \<le> length s \<and> drop (length s - length suf) s = suf)"

definition startswith :: "string \<Rightarrow> string \<Rightarrow> bool" where
  "startswith s pre = (take (length pre) s = pre)"

definition rstrip :: "string \<Rightarrow> char \<Rightarrow> string" where
  "rstrip s c = rev (dropWhile (\<lambda>x. x = c) (rev s))"

definition str_partition :: "string \<Rightarrow> char \<Rightarrow> string \<times> string \<times> string" where
  "str_partition s c =
     (if c \<in> set s
      then (takeWhile (\<lambda>x. x \<noteq> c) s, [c], tl (dropWhile (\<lambda>x. x \<noteq> c) s))
      else (s, [], []))"

fun show_nat :: "nat \<Rightarrow> string" where
  "show_nat n =
     (if n < 10 then [''0123456789'' ! n]
      else show_nat (n div 10) @ [''0123456789'' ! (n mod 10)])"

declare show_nat.simps [simp del]

definition show_int :: "int \<Rightarrow> string" where
  "show_int i = (if i < 0 then CHR ''-'' # show_nat (nat (- i)) else show_nat (nat i))"

section \<open>Command line: \<open>parse_args\<close>\<close>

text \<open>
  The three scripts build the same parser: a positional \<open>text\<close>, \<open>-o/--output\<close> with
  default \<open>speech\<close>, \<open>--format\<close> with the choices \<open>wav, mp3, opus, flac\<close> and default
  \<open>wav\<close>, and the \<open>-h/--help\<close> option that \<open>ArgumentParser\<close> adds. \<open>parse_args\<close> below is
  \<open>ArgumentParser.parse_args\<close> of CPython 3.11 specialised to that parser: the
  classification of each argument string (\<open>_parse_optional\<close>), then the alternation of
  \<open>consume_positionals\<close> and \<open>consume_optional\<close> of \<open>_parse_known_args\<close>.
\<close>

record args =
  arg_text :: string
  arg_output :: string
  arg_format :: string

definition format_choices :: "string list" where
  "format_choices = [''wav'', ''mp3'', ''opus'', ''flac'']"

datatype dest = Output | Format

datatype action = HelpAction | StoreAction dest

definition option_string_actions :: "(string \<times> action) list" where
  "option_string_actions =
     [(''-h'', HelpAction), (''--help'', HelpAction),
      (''-o'', StoreAction Output), (''--output'', StoreAction Output),
      (''--format'', StoreAction Format)]"

datatype parse_error =
    AmbiguousOption string "string list"
  | ExpectedOneArgument dest
  | IgnoredExplicitArgument string
  | InvalidChoice string
  | RequiredArguments "string list"
  | UnrecognizedArguments "string list"

text \<open>How the parser leaves without a namespace: \<open>parser.exit()\<close> after printing the help
  (status 0), or \<open>parser.error\<close> (usage and message on standard error, status 2).\<close>

datatype parse_exit = HelpExit | ErrorExit parse_error

text \<open>An option tuple: the action (if the option string is known), the option string, the
  separator and the explicit argument glued to the option string.\<close>

type_synonym option_tuple = "action option \<times> string \<times> string option \<times> string option"

text \<open>The decimal digits \<open>\d\<close> matches, as UTF-8: the bytes before the last one, and the
  range of the last byte.\<close>

definition decimal_blocks :: "(nat list \<times> nat \<times> nat) list" where
  "decimal_blocks =
    [([], 48, 57), ([217], 160, 169), ([219], 176, 185), ([223], 128, 137),
     ([224, 165], 166, 175), ([224, 167], 166, 175), ([224, 169], 166, 175),
     ([224, 171], 166, 175), ([224, 173], 166, 175), ([224, 175], 166, 175),
     ([224, 177], 166, 175), ([224, 179], 166, 175), ([224, 181], 166, 175),
     ([224, 183], 166, 175), ([224, 185], 144, 153), ([224, 187], 144, 153),
     ([224, 188], 160, 169), ([225, 129], 128, 137), ([225, 130], 144, 153),
     ([225, 159], 160, 169), ([225, 160], 144, 153), ([225, 165], 134, 143),
     ([225, 167], 144, 153), ([225, 170], 128, 137), ([225, 170], 144, 153),
     ([225, 173], 144, 153), ([225, 174], 176, 185), ([225, 177], 128, 137),
     ([225, 177], 144, 153), ([234, 152], 160, 169), ([234, 163], 144, 153),
     ([234, 164], 128, 137), ([234, 167], 144, 153), ([234, 167], 176, 185),
     ([234, 169], 144, 153), ([234, 175], 176, 185), ([239, 188], 144, 153),
     ([240, 144, 146], 160, 169), ([240, 144, 180], 176, 185), ([240, 145, 129], 166, 175),
     ([240, 145, 131], 176, 185), ([240, 145, 132], 182, 191), ([240, 145, 135], 144, 153),
     ([240, 145, 139], 176, 185), ([240, 145, 145], 144, 153), ([240, 145, 147], 144, 153),
     ([240, 145, 153], 144, 153), ([240, 145, 155], 128, 137), ([240, 145, 156], 176, 185),
     ([240, 145, 163], 160, 169), ([240, 145, 165], 144, 153), ([240, 145, 177], 144, 153),
     ([240, 145, 181], 144, 153), ([240, 145, 182], 160, 169), ([240, 150, 169], 160, 169),
     ([240, 150, 171], 128, 137), ([240, 150, 173], 144, 153), ([240, 157, 159], 142, 191),
     ([240, 158, 133], 128, 137), ([240, 158, 139], 176, 185), ([240, 158, 165], 144, 153),
     ([240, 159, 175], 176, 185)]"

definition strip_decimal :: "string \<Rightarrow> string option" where
  "strip_decimal s =
     (case filter (\<lambda>(p, lo, hi). length p < length s \<and> map of_char (take (length p) s) = p
                      \<and> lo \<le> of_char (s ! length p) \<and> of_char (s ! length p) \<le> hi)
             decimal_blocks of
        [] \<Rightarrow> None
      | (p, lo, hi) # _ \<Rightarrow> Some (drop (Suc (length p)) s))"

fun skip_decimals :: "nat \<Rightarrow> string \<Rightarrow> string" where
  "skip_decimals 0 s = s"
| "skip_decimals (Suc n) s = (case strip_decimal s of None \<Rightarrow> s | Some r \<Rightarrow> skip_decimals n r)"

text \<open>\<open>_negative_number_matcher\<close>, the regular expression \<open>^-\d+$|^-\d*\.\d+$\<close>; \<open>$\<close> also
  matches before a newline that ends the string.\<close>

definition negative_number_body :: "string \<Rightarrow> bool" where
  "negative_number_body r =
     (let r1 = skip_decimals (length r) r in
        (r \<noteq> [] \<and> r1 = []) \<or>
        (case r1 of
           c # r2 \<Rightarrow> c = CHR ''.'' \<and> r2 \<noteq> [] \<and> skip_decimals (length r2) r2 = []
         | [] \<Rightarrow> False))"

definition negative_number :: "string \<Rightarrow> bool" where
  "negative_number s =
     (case s of
        [] \<Rightarrow> False
      | c # r \<Rightarrow> c = CHR ''-'' \<and>
          (negative_number_body r \<or> (r \<noteq> [] \<and> last r = CHR 0x0A \<and> negative_number_body (butlast r))))"

definition second_is_prefix_char :: "string \<Rightarrow> bool" where
  "second_is_prefix_char s = (case s of _ # c # _ \<Rightarrow> c = CHR ''-'' | _ \<Rightarrow> False)"

definition get_option_tuples :: "string \<Rightarrow> option_tuple list" where
  "get_option_tuples s =
     (if second_is_prefix_char s then
        (case str_partition s (CHR ''='') of
           (option_prefix, sep, explicit_arg) \<Rightarrow>
             map (\<lambda>(option_string, a).
                    (Some a, option_string,
                     if sep = [] then None else Some sep,
                     if sep = [] then None else Some explicit_arg))
                 (filter (\<lambda>(option_string, a). startswith option_string option_prefix)
                    option_string_actions))
      else
        concat (map (\<lambda>(option_string, a).
                       if option_string = take 2 s then [(Some a, option_string, Some [], Some (drop 2 s))]
                       else if startswith option_string s then [(Some a, option_string, None, None)]
                       else [])
                  option_string_actions))"

definition parse_optional :: "string \<Rightarrow> parse_error + option_tuple option" where
  "parse_optional s =
     (if s = [] then Inr None
      else if hd s \<noteq> CHR ''-'' then Inr None
      else case map_of option_string_actions s of
        Some a \<Rightarrow> Inr (Some (Some a, s, None, None))
      | None \<Rightarrow>
          if length s = 1 then Inr None
          else case str_partition s (CHR ''='') of
            (option_string, sep, explicit_arg) \<Rightarrow>
              (case (if sep = [] then None else map_of option_string_actions option_string) of
                 Some a \<Rightarrow> Inr (Some (Some a, option_string, Some sep, Some explicit_arg))
               | None \<Rightarrow>
                   (case get_option_tuples s of
                      [] \<Rightarrow>
                        if negative_number s then Inr None
                        else if CHR '' '' \<in> set s then Inr None
                        else Inr (Some (None, s, None, None))
                    | [t] \<Rightarrow> Inr (Some t)
                    | ts \<Rightarrow> Inl (AmbiguousOption s (map (\<lambda>(a, option_string, sep, e). option_string) ts)))))"

text \<open>The pattern of the argument strings: \<open>A\<close> an argument, \<open>Dash\<close> the first \<open>--\<close>,
  \<open>Opt\<close> an option with its tuple.\<close>

datatype arg_class = A | Dash | Opt option_tuple

fun classify :: "string list \<Rightarrow> parse_error + (string \<times> arg_class) list" where
  "classify [] = Inr []"
| "classify (s # ss) =
     (if s = ''--'' then Inr ((s, Dash) # map (\<lambda>t. (t, A)) ss)
      else case parse_optional s of
        Inl e \<Rightarrow> Inl e
      | Inr None \<Rightarrow> (case classify ss of Inl e \<Rightarrow> Inl e | Inr cs \<Rightarrow> Inr ((s, A) # cs))
      | Inr (Some t) \<Rightarrow> (case classify ss of Inl e \<Rightarrow> Inl e | Inr cs \<Rightarrow> Inr ((s, Opt t) # cs)))"

text \<open>The namespace while parsing (\<open>text\<close> has no value until the positional is
  consumed) and the extra argument strings.\<close>

record pstate =
  st_text :: "string option"
  st_output :: string
  st_format :: string
  extras :: "string list"

definition initial_pstate :: pstate where
  "initial_pstate = \<lparr>st_text = None, st_output = ''speech'', st_format = ''wav'', extras = []\<rparr>"

text \<open>The actions an option string starts, each with its argument: the \<open>action_tuples\<close> of
  \<open>consume_optional\<close>.\<close>

datatype taken = TakeHelp | TakeStore dest string

datatype chain_result =
    ChainError parse_error
  | ChainDone "taken list" "string option" bool

text \<open>The loop of \<open>consume_optional\<close> over one argument string. \<open>next_arg\<close> is the
  following argument string when the pattern has an \<open>A\<close> there. The result holds the
  action tuples, the string added to the extras, and whether the following argument string
  was taken.\<close>

function consume_chain ::
  "action \<Rightarrow> string \<Rightarrow> string option \<Rightarrow> string option \<Rightarrow> string option \<Rightarrow> taken list \<Rightarrow> chain_result"
where
  "consume_chain HelpAction option_string sep None next_arg tuples =
     ChainDone (tuples @ [TakeHelp]) None False"
| "consume_chain HelpAction option_string sep (Some explicit_arg) next_arg tuples =
     (if \<not> second_is_prefix_char option_string \<and> explicit_arg \<noteq> [] then
        if (sep \<noteq> None \<and> sep \<noteq> Some []) \<or> hd explicit_arg = CHR ''-''
        then ChainError (IgnoredExplicitArgument explicit_arg)
        else
          (case map_of option_string_actions [CHR ''-'', hd explicit_arg] of
             Some a \<Rightarrow>
               if tl explicit_arg = []
               then consume_chain a [CHR ''-'', hd explicit_arg] None None next_arg (tuples @ [TakeHelp])
               else if hd (tl explicit_arg) = CHR ''=''
               then consume_chain a [CHR ''-'', hd explicit_arg] (Some ''='')
                      (Some (tl (tl explicit_arg))) next_arg (tuples @ [TakeHelp])
               else consume_chain a [CHR ''-'', hd explicit_arg] (Some [])
                      (Some (tl explicit_arg)) next_arg (tuples @ [TakeHelp])
           | None \<Rightarrow> ChainDone (tuples @ [TakeHelp]) (Some (CHR ''-'' # explicit_arg)) False)
      else ChainError (IgnoredExplicitArgument explicit_arg))"
| "consume_chain (StoreAction d) option_string sep (Some explicit_arg) next_arg tuples =
     ChainDone (tuples @ [TakeStore d explicit_arg]) None False"
| "consume_chain (StoreAction d) option_string sep None next_arg tuples =
     (case next_arg of
        Some a \<Rightarrow> ChainDone (tuples @ [TakeStore d a]) None True
      | None \<Rightarrow> ChainError (ExpectedOneArgument d))"
  by pat_completeness auto
termination
  by (relation "measure (\<lambda>(a, os, sep, e, n, ts). case e of None \<Rightarrow> 0 | Some x \<Rightarrow> Suc (length x))")
     (auto simp: less_Suc_eq_le neq_Nil_conv)

text \<open>\<open>take_action\<close>: help prints and exits; a store action checks the choices
  (\<open>_check_value\<close>) and sets the attribute.\<close>

fun take_action :: "pstate \<Rightarrow> taken \<Rightarrow> parse_exit + pstate" where
  "take_action st TakeHelp = Inl HelpExit"
| "take_action st (TakeStore Output v) = Inr (st\<lparr>st_output := v\<rparr>)"
| "take_action st (TakeStore Format v) =
     (if v \<in> set format_choices then Inr (st\<lparr>st_format := v\<rparr>)
      else Inl (ErrorExit (InvalidChoice v)))"

fun take_actions :: "pstate \<Rightarrow> taken list \<Rightarrow> parse_exit + pstate" where
  "take_actions st [] = Inr st"
| "take_actions st (t # ts) =
     (case take_action st t of Inl e \<Rightarrow> Inl e | Inr st' \<Rightarrow> take_actions st' ts)"

definition is_Opt :: "arg_class \<Rightarrow> bool" where
  "is_Opt c = (case c of Opt t \<Rightarrow> True | _ \<Rightarrow> False)"

text \<open>\<open>consume_optional\<close> at an option: the state after its actions, and the argument
  strings left after it.\<close>

definition consume_optional ::
  "pstate \<Rightarrow> string \<Rightarrow> option_tuple \<Rightarrow> (string \<times> arg_class) list
     \<Rightarrow> parse_exit + pstate \<times> (string \<times> arg_class) list" where
  "consume_optional st arg_string t rest =
     (case t of
        (None, option_string, sep, explicit_arg) \<Rightarrow>
          Inr (st\<lparr>extras := extras st @ [arg_string]\<rparr>, rest)
      | (Some a, option_string, sep, explicit_arg) \<Rightarrow>
          (case consume_chain a option_string sep explicit_arg
                  (case rest of (x, A) # _ \<Rightarrow> Some x | _ \<Rightarrow> None) [] of
             ChainError e \<Rightarrow> Inl (ErrorExit e)
           | ChainDone tuples extra took_next \<Rightarrow>
               (case take_actions
                       (st\<lparr>extras := extras st @ (case extra of None \<Rightarrow> [] | Some x \<Rightarrow> [x])\<rparr>)
                       tuples of
                  Inl e \<Rightarrow> Inl e
                | Inr st' \<Rightarrow> Inr (st', if took_next then tl rest else rest))))"

text \<open>\<open>consume_positionals\<close>: the one positional matches \<open>-*A-*\<close> at the start of the
  pattern, if it has no value yet; the first \<open>--\<close> among its strings is dropped.\<close>

fun match_positional :: "(string \<times> arg_class) list \<Rightarrow> (string \<times> (string \<times> arg_class) list) option" where
  "match_positional ((x, A) # (d, Dash) # rest) = Some (x, rest)"
| "match_positional ((x, A) # rest) = Some (x, rest)"
| "match_positional ((d, Dash) # (y, A) # rest) = Some (y, rest)"
| "match_positional rest = None"

definition consume_positionals ::
  "pstate \<Rightarrow> (string \<times> arg_class) list \<Rightarrow> (pstate \<times> (string \<times> arg_class) list) option" where
  "consume_positionals st rest =
     (if st_text st \<noteq> None then None
      else case match_positional rest of
        None \<Rightarrow> None
      | Some (v, rest') \<Rightarrow> Some (st\<lparr>st_text := Some v\<rparr>, rest'))"

text \<open>The \<open>while\<close> loop of \<open>_parse_known_args\<close> and the two statements after it.\<close>

function parse_loop :: "pstate \<Rightarrow> (string \<times> arg_class) list \<Rightarrow> parse_exit + pstate" where
  "parse_loop st rest =
     (if list_ex (\<lambda>x. is_Opt (snd x)) rest then
        (case rest of
           (s, Opt t) # rest' \<Rightarrow>
             (case consume_optional st s t rest' of
                Inl e \<Rightarrow> Inl e
              | Inr (st', rest'') \<Rightarrow> parse_loop st' rest'')
         | _ \<Rightarrow>
             (case consume_positionals st rest of
                Some (st', rest') \<Rightarrow> parse_loop st' rest'
              | None \<Rightarrow>
                  (case dropWhile (\<lambda>x. \<not> is_Opt (snd x)) rest of
                     (s, Opt t) # rest' \<Rightarrow>
                       (case consume_optional
                               (st\<lparr>extras := extras st @ map fst (takeWhile (\<lambda>x. \<not> is_Opt (snd x)) rest)\<rparr>)
                               s t rest' of
                          Inl e \<Rightarrow> Inl e
                        | Inr (st', rest'') \<Rightarrow> parse_loop st' rest'')
                   | _ \<Rightarrow> Inr st)))
      else
        (case consume_positionals st rest of
           Some (st', rest') \<Rightarrow> Inr (st'\<lparr>extras := extras st' @ map fst rest'\<rparr>)
         | None \<Rightarrow> Inr (st\<lparr>extras := extras st @ map fst rest\<rparr>)))"
  by pat_completeness auto
termination
proof -
  have opt: "length rest' \<le> length rest"
    if "consume_optional st s t rest = Inr (st', rest')" for st s t rest st' rest'
    using that
    by (auto simp: consume_optional_def
          split: option.splits prod.splits chain_result.splits sum.splits if_splits)
  have pos: "length rest' < length rest"
    if "consume_positionals st rest = Some (st', rest')" for st rest st' rest'
  proof -
    have "length r < length xs" if "match_positional xs = Some (v, r)" for xs v r
      using that by (induction xs rule: match_positional.induct) auto
    with that show ?thesis
      by (auto simp: consume_positionals_def split: if_splits option.splits)
  qed
  have drp: "length ys < length xs"
    if "dropWhile P xs = y # ys" for P :: "string \<times> arg_class \<Rightarrow> bool" and xs y ys
  proof -
    have "length (dropWhile P xs) \<le> length xs" by (rule length_dropWhile_le)
    with that show ?thesis by simp
  qed
  show ?thesis
    apply (relation "measure (\<lambda>(st, rest). length rest)")
     apply simp
    apply (auto dest!: opt pos drp simp: is_Opt_def)
    done
qed

declare parse_loop.simps [simp del]

text \<open>\<open>parse_args\<close>: the classification, the loop, the check of the required positional
  (in \<open>_parse_known_args\<close>) and the check of the extras (in \<open>parse_args\<close>).\<close>

definition parse_args :: "string list \<Rightarrow> parse_exit + args" where
  "parse_args argv =
     (case classify argv of
        Inl e \<Rightarrow> Inl (ErrorExit e)
      | Inr cs \<Rightarrow>
          (case parse_loop initial_pstate cs of
             Inl e \<Rightarrow> Inl e
           | Inr st \<Rightarrow>
               (case st_text st of
                  None \<Rightarrow> Inl (ErrorExit (RequiredArguments [''text'']))
                | Some t \<Rightarrow>
                    if extras st \<noteq> [] then Inl (ErrorExit (UnrecognizedArguments (extras st)))
                    else Inr \<lparr>arg_text = t, arg_output = st_output st, arg_format = st_format st\<rparr>)))"

section \<open>The world the scripts run in\<close>

text \<open>A decoded JSON value, as \<open>response.json()\<close> returns it. A \<open>dict\<close> is an association
  list in which a lookup takes the first entry of a key; a \<open>float\<close> is held as its \<open>repr\<close>,
  which determines it.\<close>

datatype json =
    JNull
  | JBool bool
  | JInt int
  | JFloat string
  | JStr string
  | JArr "json list"
  | JObj "(string \<times> json) list"

text \<open>Python's truth value of such a value, as \<open>message or response.text\<close> tests it.\<close>

fun truthy :: "json \<Rightarrow> bool" where
  "truthy JNull = False"
| "truthy (JBool b) = b"
| "truthy (JInt i) = (i \<noteq> 0)"
| "truthy (JFloat r) = (r \<noteq> ''0.0'' \<and> r \<noteq> ''-0.0'')"
| "truthy (JStr s) = (s \<noteq> [])"
| "truthy (JArr xs) = (xs \<noteq> [])"
| "truthy (JObj kvs) = (kvs \<noteq> [])"

text \<open>The exceptions the scripts meet, each with its \<open>str()\<close>: \<open>RuntimeError\<close>,
  \<open>requests.RequestException\<close> (and its subclasses: connection, timeout, invalid URL),
  \<open>OSError\<close>, and any other exception.\<close>

datatype py_exn =
    RuntimeError string
  | RequestException string
  | OSError string
  | OtherException string

text \<open>The call \<open>requests.post(url, json=payload, headers=headers, timeout=60)\<close>.\<close>

record http_request =
  http_method :: string
  url :: string
  json_payload :: "(string \<times> json) list"
  headers :: "(string \<times> string) list"
  timeout :: nat

text \<open>What the script reads of a \<open>requests.Response\<close>: \<open>status_code\<close>, \<open>content\<close>,
  \<open>text\<close> and \<open>json()\<close> (\<open>None\<close> when \<open>json()\<close> raises).\<close>

record response =
  status_code :: int
  content :: bytes
  body_text :: string
  body_json :: "json option"

text \<open>The SDK call of \<open>1-tts.py\<close> and \<open>2-tts.py\<close>: the keyword arguments of the client's
  constructor and of \<open>client.audio.speech.create\<close>, as written in the script. An attribute
  of the object it returns is absent, or present with a value that may be \<open>None\<close>.\<close>

record sdk_call =
  client_kwargs :: "(string \<times> string) list"
  create_kwargs :: "(string \<times> string) list"

datatype 'a attr = Absent | Present "'a option"

record sdk_response =
  sdk_audio :: "bytes attr"
  sdk_content :: "bytes attr"
  sdk_read :: "bytes attr"

text \<open>What is written to a stream: a string the script writes, the usage error or the help
  of \<open>argparse\<close>, or the traceback of an exception nothing catches.\<close>

datatype written =
    Written string
  | ArgparseError parse_error
  | ArgparseHelp
  | Traceback py_exn

text \<open>
  The world. What a run meets:
  \<^item> \<open>environ\<close>, the environment variables;
  \<^item> the network: \<open>post\<close> is what a request ends with when the client waits long enough,
    \<open>silence\<close> is the longest time, in seconds, for which the server lets the client wait
    (for the connection, or for the next bytes of the answer), and \<open>timeout_cause\<close> is the
    \<open>str()\<close> of the \<open>requests.Timeout\<close> that is raised when that wait exceeds the timeout of
    the request;
  \<^item> \<open>speech_create\<close>, the answer of the endpoint at a base URL to a call of the SDK;
  \<^item> the file system: \<open>open_error\<close> gives the paths on which \<open>open(path, "wb")\<close> raises
    \<open>OSError\<close>, and \<open>write_error\<close> the paths on which the file is opened (created or
    truncated) but writing or closing it raises \<open>OSError\<close>, with the number of bytes that
    reached the file;
  \<^item> \<open>print_error\<close>, the strings that \<open>print\<close> cannot write to standard output, with the
    exception it raises (\<open>UnicodeEncodeError\<close> when the encoding of the stream lacks a
    character, \<open>OSError\<close> when the stream is broken);
  \<^item> \<open>container_repr\<close>, the interpreter's \<open>str()\<close> of a list or dict.

  What a run changes: the files, the log of the requests issued with the time the client
  waited for each (\<open>waited\<close>), the log of the SDK calls with the base URL of the client of
  each (\<open>sdk_base_urls\<close>), and the two output streams.
\<close>

record world =
  environ :: "string \<rightharpoonup> string"
  post :: "http_request \<Rightarrow> py_exn + response"
  silence :: "http_request \<Rightarrow> nat"
  timeout_cause :: "http_request \<Rightarrow> string"
  speech_create :: "string \<Rightarrow> sdk_call \<Rightarrow> py_exn + sdk_response"
  open_error :: "string \<rightharpoonup> string"
  write_error :: "string \<rightharpoonup> string \<times> nat"
  print_error :: "string \<rightharpoonup> py_exn"
  container_repr :: "json \<Rightarrow> string"
  files :: "string \<rightharpoonup> bytes"
  requests_issued :: "http_request list"
  waited :: "nat list"
  sdk_calls :: "sdk_call list"
  sdk_base_urls :: "string list"
  stdout :: "written list"
  stderr :: "written list"

definition py_str :: "world \<Rightarrow> json \<Rightarrow> string" where
  "py_str w v =
     (case v of
        JNull \<Rightarrow> ''None''
      | JBool b \<Rightarrow> (if b then ''True'' else ''False'')
      | JInt i \<Rightarrow> show_int i
      | JFloat r \<Rightarrow> r
      | JStr s \<Rightarrow> s
      | _ \<Rightarrow> container_repr w v)"

definition stderr_write :: "string \<Rightarrow> world \<Rightarrow> world" where
  "stderr_write s w = w\<lparr>stderr := stderr w @ [Written s]\<rparr>"

text \<open>\<open>print(s)\<close>: the exception it raises, if any, and the world after it.\<close>

definition print :: "string \<Rightarrow> world \<Rightarrow> py_exn option \<times> world" where
  "print s w =
     (case print_error w s of
        Some e \<Rightarrow> (Some e, w)
      | None \<Rightarrow> (None, w\<lparr>stdout := stdout w @ [Written (s @ [CHR 0x0A])]\<rparr>))"

text \<open>An exception that reaches the top level: the traceback on standard error, status 1.\<close>

definition uncaught :: "py_exn \<Rightarrow> world \<Rightarrow> nat \<times> world" where
  "uncaught e w = (1, w\<lparr>stderr := stderr w @ [Traceback e]\<rparr>)"

text \<open>\<open>parse_args\<close> leaving the program: the help on standard output and status 0, or the
  usage error on standard error and status 2.\<close>

fun parser_exit :: "parse_exit \<Rightarrow> world \<Rightarrow> nat \<times> world" where
  "parser_exit HelpExit w = (0, w\<lparr>stdout := stdout w @ [ArgparseHelp]\<rparr>)"
| "parser_exit (ErrorExit e) w = (2, w\<lparr>stderr := stderr w @ [ArgparseError e]\<rparr>)"

text \<open>\<open>requests.post(..., timeout=t)\<close>: the client waits for the server for at most \<open>t\<close>
  seconds at a time; when the server stays silent for longer, the call raises
  \<open>requests.Timeout\<close>, a \<open>RequestException\<close>.\<close>

definition requests_post :: "http_request \<Rightarrow> world \<Rightarrow> (py_exn + response) \<times> world" where
  "requests_post req w =
     (if timeout req < silence w req then Inl (RequestException (timeout_cause w req))
      else post w req,
      w\<lparr>requests_issued := requests_issued w @ [req],
        waited := waited w @ [min (silence w req) (timeout req)]\<rparr>)"

text \<open>\<open>with open(output_file, "wb") as f: f.write(audio_data)\<close>: the exception it raises, if
  any, and the world after it. When \<open>open\<close> raises, no file changes; when the write
  raises, the file is left with the bytes that reached it.\<close>

definition write_file :: "string \<Rightarrow> bytes \<Rightarrow> world \<Rightarrow> py_exn option \<times> world" where
  "write_file path data w =
     (case open_error w path of
        Some e \<Rightarrow> (Some (OSError e), w)
      | None \<Rightarrow>
          (case write_error w path of
             Some (e, n) \<Rightarrow> (Some (OSError e), w\<lparr>files := (files w)(path \<mapsto> take n data)\<rparr>)
           | None \<Rightarrow> (None, w\<lparr>files := (files w)(path \<mapsto> data)\<rparr>)))"

section \<open>\<open>3-tts.py\<close>\<close>

definition DEFAULT_OPENAI_BASE_URL :: string where
  "DEFAULT_OPENAI_BASE_URL = ''https://api.openai.com/v1''"

definition request_url :: "string \<Rightarrow> string" where
  "request_url base_url = rstrip base_url (CHR ''/'') @ ''/audio/speech''"

text \<open>\<open>response.json().get("error", {}).get("message", "")\<close> under \<open>try\<close>: the empty string
  stays when \<open>json()\<close> raises or a \<open>get\<close> is called on a value that is not a dict.\<close>

definition error_message :: "response \<Rightarrow> json" where
  "error_message r =
     (case body_json r of
        Some (JObj kvs) \<Rightarrow>
          (case map_of kvs ''error'' of
             None \<Rightarrow> JStr []
           | Some (JObj e) \<Rightarrow> (case map_of e ''message'' of None \<Rightarrow> JStr [] | Some m \<Rightarrow> m)
           | Some _ \<Rightarrow> JStr [])
      | _ \<Rightarrow> JStr [])"

text \<open>Lines 78-91 of \<open>request_tts\<close>: the URL, the headers and the payload.\<close>

definition build_request ::
  "string \<Rightarrow> string \<Rightarrow> string \<Rightarrow> string \<Rightarrow> string \<Rightarrow> string \<Rightarrow> string option \<Rightarrow> http_request" where
  "build_request api_key text_in audio_format base_url model voice instructions =
     \<lparr>http_method = ''POST'',
      url = request_url base_url,
      json_payload =
        [(''model'', JStr model),
         (''voice'', JStr voice),
         (''input'', JStr text_in),
         (''instructions'', case instructions of None \<Rightarrow> JNull | Some i \<Rightarrow> JStr i),
         (''response_format'', JStr audio_format)],
      headers =
        [(''Authorization'', ''Bearer '' @ api_key),
         (''Content-Type'', ''application/json'')],
      timeout = 60\<rparr>"

definition request_tts ::
  "string \<Rightarrow> string \<Rightarrow> string \<Rightarrow> string \<Rightarrow> string \<Rightarrow> string \<Rightarrow> string option \<Rightarrow> world
     \<Rightarrow> (py_exn + bytes) \<times> world" where
  "request_tts api_key text_in audio_format base_url model voice instructions w =
     (case requests_post
             (build_request api_key text_in audio_format base_url model voice instructions) w of
        (Inl (RequestException exc), w') \<Rightarrow>
          (Inl (RuntimeError
                 (''Network error while contacting '' @ request_url base_url @ '': '' @ exc)), w')
      | (Inl e, w') \<Rightarrow> (Inl e, w')
      | (Inr r, w') \<Rightarrow>
          if status_code r \<noteq> 200 then
            (Inl (RuntimeError
                   (''API error '' @ show_int (status_code r) @ '': '' @
                    py_str w' (if truthy (error_message r) then error_message r
                               else JStr (body_text r)))), w')
          else (Inr (content r), w'))"

text \<open>The name of the output file (lines 134-137 of \<open>3-tts.py\<close>, and the same lines of the
  other two scripts).\<close>

definition output_filename :: "string \<Rightarrow> string \<Rightarrow> string" where
  "output_filename output_file fmt =
     (if \<not> endswith (lower output_file) (''.'' @ fmt) then output_file @ ''.'' @ fmt
      else output_file)"

definition missing_key :: "world \<Rightarrow> nat \<times> world" where
  "missing_key w =
     (1, stderr_write (''Error: OPENAI_API_KEY environment variable is not set.'' @ [CHR 0x0A]) w)"

definition saved_message :: "string \<Rightarrow> string" where
  "saved_message output_file = [CHR 0xE2, CHR 0x9C, CHR 0x94] @ '' Audio saved to '' @ output_file"

text \<open>\<open>os.getenv("OPENAI_BASE_URL", DEFAULT_OPENAI_BASE_URL)\<close>.\<close>

definition get_base_url :: "world \<Rightarrow> string" where
  "get_base_url w =
     (case environ w ''OPENAI_BASE_URL'' of None \<Rightarrow> DEFAULT_OPENAI_BASE_URL | Some u \<Rightarrow> u)"

definition main3_body :: "args \<Rightarrow> world \<Rightarrow> nat \<times> world" where
  "main3_body a w =
     (case environ w ''OPENAI_API_KEY'' of
        None \<Rightarrow> missing_key w
      | Some api_key \<Rightarrow>
          if api_key = [] then missing_key w
          else
            (case request_tts api_key (arg_text a) (arg_format a) (get_base_url w)
                    ''gpt-4o-mini-tts'' ''alloy''
                    (Some ''Speak in a cheerful and positive tone.'') w of
               (Inl (RuntimeError err), w') \<Rightarrow> (1, stderr_write (err @ [CHR 0x0A]) w')
             | (Inl e, w') \<Rightarrow> uncaught e w'
             | (Inr audio_data, w') \<Rightarrow>
                 (let output_file = output_filename (arg_output a) (arg_format a)
                  in case write_file output_file audio_data w' of
                       (Some (OSError exc), w'') \<Rightarrow>
                         (1, stderr_write
                               (''Error writing '' @ output_file @ '': '' @ exc @ [CHR 0x0A]) w'')
                     | (Some e, w'') \<Rightarrow> uncaught e w''
                     | (None, w'') \<Rightarrow>
                         (case print (saved_message output_file) w'' of
                            (Some e, w3) \<Rightarrow> uncaught e w3
                          | (None, w3) \<Rightarrow> (0, w3)))))"

definition main3 :: "string list \<Rightarrow> world \<Rightarrow> nat \<times> world" where
  "main3 argv w =
     (case parse_args argv of
        Inl e \<Rightarrow> parser_exit e w
      | Inr a \<Rightarrow> main3_body a w)"

section \<open>\<open>1-tts.py\<close> and \<open>2-tts.py\<close>\<close>

text \<open>The keyword arguments of \<open>client.audio.speech.create\<close>, the same in both scripts.\<close>

definition speech_kwargs :: "args \<Rightarrow> (string \<times> string) list" where
  "speech_kwargs a =
     [(''model'', ''gpt-4o-mini-tts''),
      (''voice'', ''alloy''),
      (''input'', arg_text a),
      (''instructions'', ''Speak in a cheerful and positive tone.''),
      (''response_format'', arg_format a)]"

text \<open>The base URL of the SDK's client, as the constructor \<open>OpenAI(...)\<close> of the \<open>openai\<close>
  package (which \<open>litellm\<close> hands on) settles it: the argument \<open>base_url\<close> when it is given,
  else the environment variable \<open>OPENAI_BASE_URL\<close> when it is set, else
  \<open>https://api.openai.com/v1\<close>.\<close>

definition client_base_url :: "world \<Rightarrow> (string \<times> string) list \<Rightarrow> string" where
  "client_base_url w kwargs =
     (case map_of kwargs ''base_url'' of
        Some u \<Rightarrow> u
      | None \<Rightarrow>
          (case environ w ''OPENAI_BASE_URL'' of
             Some u \<Rightarrow> u
           | None \<Rightarrow> ''https://api.openai.com/v1''))"

text \<open>The client is constructed and \<open>client.audio.speech.create\<close> is called: the call goes
  to the endpoint at the base URL of the client.\<close>

definition sdk_create :: "sdk_call \<Rightarrow> world \<Rightarrow> (py_exn + sdk_response) \<times> world" where
  "sdk_create c w =
     (speech_create w (client_base_url w (client_kwargs c)) c,
      w\<lparr>sdk_calls := sdk_calls w @ [c],
        sdk_base_urls := sdk_base_urls w @ [client_base_url w (client_kwargs c)]\<rparr>)"

text \<open>\<open>getattr(response, "audio", None)\<close>, then the fallbacks \<open>content\<close> and \<open>read()\<close>.\<close>

definition extract_audio :: "sdk_response \<Rightarrow> bytes option" where
  "extract_audio r =
     (case (case sdk_audio r of Present v \<Rightarrow> v | Absent \<Rightarrow> None) of
        Some d \<Rightarrow> Some d
      | None \<Rightarrow>
          (case sdk_content r of
             Present v \<Rightarrow> v
           | Absent \<Rightarrow> (case sdk_read r of Present v \<Rightarrow> v | Absent \<Rightarrow> None)))"

text \<open>What both scripts do with the response: no \<open>try\<close> around the write or the \<open>print\<close>.\<close>

definition save_audio :: "args \<Rightarrow> sdk_response \<Rightarrow> world \<Rightarrow> nat \<times> world" where
  "save_audio a r w =
     (case extract_audio r of
        None \<Rightarrow>
          (1, stderr_write (''Error: Could not extract audio data from response.'' @ [CHR 0x0A]) w)
      | Some audio_data \<Rightarrow>
          (let output_file = output_filename (arg_output a) (arg_format a)
           in case write_file output_file audio_data w of
                (Some e, w') \<Rightarrow> uncaught e w'
              | (None, w') \<Rightarrow>
                  (case print (saved_message output_file) w' of
                     (Some e, w'') \<Rightarrow> uncaught e w''
                   | (None, w'') \<Rightarrow> (0, w''))))"

definition sdk_main :: "(string \<times> string) list \<Rightarrow> args \<Rightarrow> world \<Rightarrow> nat \<times> world" where
  "sdk_main client a w =
     (case sdk_create \<lparr>client_kwargs = client, create_kwargs = speech_kwargs a\<rparr> w of
        (Inl e, w') \<Rightarrow> uncaught e w'
      | (Inr r, w') \<Rightarrow> save_audio a r w')"

definition main1 :: "string list \<Rightarrow> world \<Rightarrow> nat \<times> world" where
  "main1 argv w =
     (case parse_args argv of
        Inl e \<Rightarrow> parser_exit e w
      | Inr a \<Rightarrow>
          (case environ w ''OPENAI_API_KEY'' of
             None \<Rightarrow> missing_key w
           | Some api_key \<Rightarrow>
               if api_key = [] then missing_key w
               else sdk_main [] a w))"

definition OPENAI_BASE_URL :: string where
  "OPENAI_BASE_URL = ''https://api.openai.com/v1''"

definition main2 :: "string list \<Rightarrow> world \<Rightarrow> nat \<times> world" where
  "main2 argv w =
     (case parse_args argv of
        Inl e \<Rightarrow> parser_exit e w
      | Inr a \<Rightarrow>
          (case environ w ''OPENAI_API_KEY'' of
             None \<Rightarrow> missing_key w
           | Some api_key \<Rightarrow>
               if api_key = [] then missing_key w
               else sdk_main [(''api_key'', api_key), (''base_url'', OPENAI_BASE_URL)] a w))"

section \<open>Notions the claims speak of\<close>

text \<open>The request a run of \<open>3-tts.py\<close> issues, for the key and the arguments of the run, and
  what \<open>requests.post\<close> ends with on it.\<close>

definition tts_request :: "world \<Rightarrow> string \<Rightarrow> args \<Rightarrow> http_request" where
  "tts_request w api_key a =
     build_request api_key (arg_text a) (arg_format a) (get_base_url w)
       ''gpt-4o-mini-tts'' ''alloy'' (Some ''Speak in a cheerful and positive tone.'')"

definition tts_answer :: "world \<Rightarrow> string \<Rightarrow> args \<Rightarrow> py_exn + response" where
  "tts_answer w api_key a = fst (requests_post (tts_request w api_key a) w)"

text \<open>The nested \<open>error.message\<close> field of a response whose body is JSON, in the words of the
  specification: the body is an object, its \<open>error\<close> is an object, and that has a
  \<open>message\<close>.\<close>

definition nested_error_message :: "response \<Rightarrow> json option" where
  "nested_error_message r =
     (case body_json r of
        Some (JObj kvs) \<Rightarrow>
          (case map_of kvs ''error'' of Some (JObj e) \<Rightarrow> map_of e ''message'' | _ \<Rightarrow> None)
      | _ \<Rightarrow> None)"



text \<open>A world with an empty environment, no files, a network that refuses every connection
  at once, and a file system and a standard output that take everything; the examples
  below set what they need in it.\<close>

definition quiet_world :: world where
  "quiet_world =
     \<lparr>environ = Map.empty,
      post = (\<lambda>req. Inl (RequestException ''connection refused'')),
      silence = (\<lambda>req. 0),
      timeout_cause = (\<lambda>req. ''Read timed out. (read timeout=60)''),
      speech_create = (\<lambda>u c. Inl (OtherException ''connection refused'')),
      open_error = Map.empty,
      write_error = Map.empty,
      print_error = Map.empty,
      container_repr = (\<lambda>v. ''{...}''),
      files = Map.empty,
      requests_issued = [],
      waited = [],
      sdk_calls = [],
      sdk_base_urls = [],
      stdout = [],
      stderr = []\<rparr>"

section \<open>Facts about the string operations\<close>

lemma endswith_suffix: "endswith s suf \<longleftrightarrow> suffix suf s"
proof
  assume "endswith s suf"
  then have "s = take (length s - length suf) s @ suf"
    by (metis append_take_drop_id endswith_def)
  then show "suffix suf s" by (metis suffixI)
next
  assume "suffix suf s"
  then obtain zs where "s = zs @ suf" by (auto simp: suffix_def)
  then show "endswith s suf" by (simp add: endswith_def)
qed

lemma rstrip_decompose:
  "u = rstrip u c @ replicate (length (takeWhile (\<lambda>x. x = c) (rev u))) c"
proof -
  have tw: "takeWhile (\<lambda>x. x = c) xs = replicate (length (takeWhile (\<lambda>x. x = c) xs)) c"
    for xs :: string
    by (induction xs) auto
  have "rev u = takeWhile (\<lambda>x. x = c) (rev u) @ dropWhile (\<lambda>x. x = c) (rev u)"
    by simp
  then have "u = rev (dropWhile (\<lambda>x. x = c) (rev u)) @ rev (takeWhile (\<lambda>x. x = c) (rev u))"
    by (metis rev_append rev_rev_ident)
  also have "rev (takeWhile (\<lambda>x. x = c) (rev u))
             = replicate (length (takeWhile (\<lambda>x. x = c) (rev u))) c"
    using tw [of "rev u"] by (metis rev_replicate)
  finally show ?thesis by (simp add: rstrip_def)
qed

lemma rstrip_last: "rstrip u c = [] \<or> last (rstrip u c) \<noteq> c"
proof (cases "dropWhile (\<lambda>x. x = c) (rev u)")
  case Nil
  then show ?thesis by (simp add: rstrip_def)
next
  case (Cons y ys)
  then have "y \<noteq> c" using hd_dropWhile [of "\<lambda>x. x = c" "rev u"] by auto
  with Cons show ?thesis by (simp add: rstrip_def)
qed

lemma rstrip_snoc: "rstrip (u @ [c]) c = rstrip u c"
  by (simp add: rstrip_def)

lemma suffix_single: "suffix [c] p \<longleftrightarrow> p \<noteq> [] \<and> last p = c"
  by (cases p rule: rev_cases) (auto simp: suffix_def)

lemma request_tts_issues:
  "requests_issued (snd (request_tts k t f u m v i w)) =
     requests_issued w @ [build_request k t f u m v i]"
  by (simp add: request_tts_def requests_post_def split: sum.splits py_exn.splits)

lemma py_str_world: "container_repr w' = container_repr w \<Longrightarrow> py_str w' v = py_str w v"
  by (cases v) (simp_all add: py_str_def)

lemma lower_append: "lower (p @ s) = lower p @ lower s"
  by (simp add: lower_def)

lemma suffix_lower_iff:
  "suffix e (lower b) \<longleftrightarrow> (\<exists>p s. b = p @ s \<and> lower s = e)"
proof
  assume "suffix e (lower b)"
  then obtain zs where zs: "lower b = zs @ e" by (auto simp: suffix_def)
  let ?n = "length b - length e"
  have len: "length (lower b) = length b" by (simp add: lower_def)
  have "lower (drop ?n b) = drop ?n (lower b)" by (simp add: lower_def drop_map)
  also have "\<dots> = e" using zs len by (metis append_eq_conv_conj diff_add_inverse2 length_append)
  finally have "lower (drop ?n b) = e" .
  moreover have "b = take ?n b @ drop ?n b" by simp
  ultimately show "\<exists>p s. b = p @ s \<and> lower s = e" by blast
next
  assume "\<exists>p s. b = p @ s \<and> lower s = e"
  then show "suffix e (lower b)" by (auto simp: lower_append suffix_def)
qed

section \<open>Facts about the parser\<close>

lemma consume_chain_shape:
  "consume_chain a os sep e n ts = ChainDone ts' x b \<Longrightarrow>
     (case a of
        HelpAction \<Rightarrow> (\<exists>r. ts' = ts @ TakeHelp # r)
      | StoreAction d \<Rightarrow> (\<exists>v. ts' = ts @ [TakeStore d v] \<and> x = None
            \<and> (case e of Some ev \<Rightarrow> v = ev \<and> \<not> b | None \<Rightarrow> n = Some v \<and> b)))"
proof (induction a os sep e n ts rule: consume_chain.induct)
  case (1 option_string sep next_arg tuples)
  then show ?case by auto
next
  case (2 option_string sep explicit_arg next_arg tuples)
  then show ?case
    by (auto split: if_splits option.splits action.splits)
next
  case (3 d option_string sep explicit_arg next_arg tuples)
  then show ?case by auto
next
  case (4 d option_string sep next_arg tuples)
  then show ?case by (auto split: option.splits)
qed

lemma consume_optional_result:
  assumes "consume_optional st s t rest = Inr (st', rest')"
  shows "st_text st' = st_text st
     \<and> (case t of
          (None, os, sep, e) \<Rightarrow> st' = st\<lparr>extras := extras st @ [s]\<rparr> \<and> rest' = rest
        | (Some HelpAction, os, sep, e) \<Rightarrow> False
        | (Some (StoreAction d), os, sep, e) \<Rightarrow>
            (\<exists>v. (case e of Some ev \<Rightarrow> v = ev \<and> rest' = rest
                             | None \<Rightarrow> (\<exists>xs. rest = (v, A) # xs \<and> rest' = xs))
                \<and> (case d of
                      Output \<Rightarrow> st' = st\<lparr>st_output := v\<rparr>
                    | Format \<Rightarrow> v \<in> set format_choices \<and> st' = st\<lparr>st_format := v\<rparr>)))"
proof -
  obtain ao os sep e where t: "t = (ao, os, sep, e)" by (cases t) auto
  show ?thesis
  proof (cases ao)
    case None
    with assms t show ?thesis by (auto simp: consume_optional_def)
  next
    case (Some a)
    let ?n = "case rest of (x, A) # _ \<Rightarrow> Some x | _ \<Rightarrow> None"
    from assms t Some obtain ts x b where
      ch: "consume_chain a os sep e ?n [] = ChainDone ts x b"
      and ta: "take_actions (st\<lparr>extras := extras st @ (case x of None \<Rightarrow> [] | Some y \<Rightarrow> [y])\<rparr>) ts
                 = Inr st'"
      and r: "rest' = (if b then tl rest else rest)"
      by (auto simp: consume_optional_def split: chain_result.splits sum.splits)
    show ?thesis
    proof (cases a)
      case HelpAction
      with consume_chain_shape [OF ch] ta show ?thesis by auto
    next
      case (StoreAction d)
      with consume_chain_shape [OF ch] obtain v where
        v: "ts = [TakeStore d v]" "x = None"
           "(case e of Some ev \<Rightarrow> v = ev \<and> \<not> b | None \<Rightarrow> ?n = Some v \<and> b)"
        by auto
      from v(3) r have "case e of Some ev \<Rightarrow> v = ev \<and> rest' = rest
                             | None \<Rightarrow> (\<exists>xs. rest = (v, A) # xs \<and> rest' = xs)"
        by (auto split: option.splits list.splits arg_class.splits prod.splits)
      with ta v(1,2) t Some StoreAction show ?thesis
        by (cases d) (auto split: if_splits)
    qed
  qed
qed





lemma consume_optional_length:
  "consume_optional st s t rest = Inr (st', rest') \<Longrightarrow> length rest' \<le> length rest"
  by (auto simp: consume_optional_def
        split: option.splits prod.splits chain_result.splits sum.splits if_splits)


lemma parse_loop_Opt:
  "parse_loop st ((s, Opt t) # rest) =
     (case consume_optional st s t rest of
        Inl e \<Rightarrow> Inl e
      | Inr (st', rest') \<Rightarrow> parse_loop st' rest')"
  by (subst parse_loop.simps) (simp add: is_Opt_def)

lemma parse_loop_no_Opt:
  "\<not> list_ex (\<lambda>x. is_Opt (snd x)) rest \<Longrightarrow>
   parse_loop st rest =
     (case consume_positionals st rest of
        Some (st', rest') \<Rightarrow> Inr (st'\<lparr>extras := extras st' @ map fst rest'\<rparr>)
      | None \<Rightarrow> Inr (st\<lparr>extras := extras st @ map fst rest\<rparr>))"
  by (subst parse_loop.simps) simp

lemma parse_loop_not_Opt:
  assumes "\<not> is_Opt c" and "list_ex (\<lambda>x. is_Opt (snd x)) rest"
  shows "parse_loop st ((s, c) # rest) =
     (case consume_positionals st ((s, c) # rest) of
        Some (st', rest') \<Rightarrow> parse_loop st' rest'
      | None \<Rightarrow>
          (case dropWhile (\<lambda>x. \<not> is_Opt (snd x)) rest of
             (s', Opt t) # rest' \<Rightarrow>
               (case consume_optional
                       (st\<lparr>extras := extras st @ s # map fst (takeWhile (\<lambda>x. \<not> is_Opt (snd x)) rest)\<rparr>)
                       s' t rest' of
                  Inl e \<Rightarrow> Inl e
                | Inr (st', rest'') \<Rightarrow> parse_loop st' rest'')
           | _ \<Rightarrow> Inr st))"
proof -
  let ?P = "\<lambda>x. \<not> is_Opt (snd x)"
  have dw: "dropWhile ?P ((s, c) # rest) = dropWhile ?P rest"
    using assms(1) by simp
  have tw: "map fst (takeWhile ?P ((s, c) # rest)) = s # map fst (takeWhile ?P rest)"
    using assms(1) by simp
  have ex: "list_ex (\<lambda>x. is_Opt (snd x)) ((s, c) # rest)"
    using assms(2) by simp
  show ?thesis
    apply (subst parse_loop.simps)
    apply (unfold dw tw)
    apply (simp only: ex if_True)
    using assms(1) apply (cases c)
      apply (simp_all add: is_Opt_def)
    done
qed



lemma classify_result:
  "classify argv = Inr cs \<Longrightarrow>
     map fst cs = argv \<and> (\<forall>s t. (s, Opt t) \<in> set cs \<longrightarrow> parse_optional s = Inr (Some t))"
proof (induction argv arbitrary: cs)
  case Nil
  then show ?case by simp
next
  case (Cons s ss)
  show ?case
  proof (cases "s = ''--''")
    case True
    with Cons.prems show ?thesis by (auto simp: comp_def)
  next
    case False
    with Cons.prems Cons.IH show ?thesis
      by (auto split: sum.splits option.splits)
  qed
qed

lemma parse_args_result:
  assumes "parse_args argv = Inr a"
  obtains cs st where "classify argv = Inr cs" "parse_loop initial_pstate cs = Inr st"
    "st_text st = Some (arg_text a)" "st_output st = arg_output a" "st_format st = arg_format a"
    "extras st = []"
  using assms
  by (auto simp: parse_args_def split: sum.splits option.splits if_splits)


lemma parse_loop_Nil: "parse_loop st [] = Inr st"
  by (simp add: parse_loop_no_Opt consume_positionals_def)

lemma classify_o_format:
  "classify [''-o'', ''hello'', ''--format'', ''mp3''] =
     Inr [(''-o'', Opt (Some (StoreAction Output), ''-o'', None, None)), (''hello'', A),
          (''--format'', Opt (Some (StoreAction Format), ''--format'', None, None)), (''mp3'', A)]"
  by code_simp

lemma parse_loop_o_format:
  "parse_loop st
     [(''-o'', Opt (Some (StoreAction Output), ''-o'', None, None)), (''hello'', A),
      (''--format'', Opt (Some (StoreAction Format), ''--format'', None, None)), (''mp3'', A)]
   = Inr (st\<lparr>st_output := ''hello'', st_format := ''mp3''\<rparr>)"
  by (simp add: parse_loop_Opt consume_optional_def parse_loop_Nil format_choices_def)

lemma consume_optional_text:
  "consume_optional st s t rest = Inr (st', rest') \<Longrightarrow> st_text st' = st_text st"
  using consume_optional_result by blast

lemma consume_optional_rest_Opt:
  assumes "consume_optional st s t ((x, Opt u) # xs) = Inr (st', rest')"
  shows "rest' = (x, Opt u) # xs"
proof -
  obtain ao os sep e where t: "t = (ao, os, sep, e)" by (cases t) auto
  from consume_optional_result [OF assms] t show ?thesis
    by (cases ao; cases e) (auto split: action.splits)
qed

lemma classify_Cons:
  "s \<noteq> ''--'' \<Longrightarrow> classify ss = Inr cs' \<Longrightarrow>
   classify (s # ss) =
     (case parse_optional s of
        Inl e \<Rightarrow> Inl e
      | Inr None \<Rightarrow> Inr ((s, A) # cs')
      | Inr (Some t) \<Rightarrow> Inr ((s, Opt t) # cs'))"
  by (simp split: sum.splits option.splits)

lemma parse_args_text_o_format:
  assumes "parse_args [t, ''-o'', ''hello'', ''--format'', ''mp3''] = Inr a"
  shows "a = \<lparr>arg_text = t, arg_output = ''hello'', arg_format = ''mp3''\<rparr>"
proof -
  let ?cs4 = "[(''-o'', Opt (Some (StoreAction Output), ''-o'', None, None)), (''hello'', A),
          (''--format'', Opt (Some (StoreAction Format), ''--format'', None, None)), (''mp3'', A)]"
  from assms obtain cs st where c: "classify [t, ''-o'', ''hello'', ''--format'', ''mp3''] = Inr cs"
    and l: "parse_loop initial_pstate cs = Inr st"
    and st: "st_text st = Some (arg_text a)" "st_output st = arg_output a"
            "st_format st = arg_format a" "extras st = []"
    by (rule parse_args_result)
  show ?thesis
  proof (cases "t = ''--''")
    case True
    with c have cs: "cs = [(''--'', Dash), (''-o'', A), (''hello'', A), (''--format'', A), (''mp3'', A)]"
      by auto
    from l st(4) show ?thesis unfolding cs
      by (auto simp: parse_loop_no_Opt is_Opt_def consume_positionals_def initial_pstate_def)
  next
    case False
    from c classify_Cons [OF False classify_o_format]
    have c': "(case parse_optional t of Inl e \<Rightarrow> Inl e
        | Inr None \<Rightarrow> Inr ((t, A) # ?cs4)
        | Inr (Some u) \<Rightarrow> Inr ((t, Opt u) # ?cs4)) = Inr cs"
      by simp
    show ?thesis
    proof (cases "parse_optional t")
      case (Inl e)
      with c' show ?thesis by simp
    next
      case (Inr po)
      show ?thesis
      proof (cases po)
        case None
        with c' Inr have cs: "cs = (t, A) # ?cs4" by simp
        have "parse_loop initial_pstate cs
              = Inr (initial_pstate\<lparr>st_text := Some t, st_output := ''hello'', st_format := ''mp3''\<rparr>)"
          unfolding cs
          by (subst parse_loop_not_Opt)
             (simp_all add: is_Opt_def consume_positionals_def initial_pstate_def parse_loop_o_format)
        with l st show ?thesis by (cases a) (auto simp: initial_pstate_def)
      next
        case (Some u)
        with c' Inr have cs: "cs = (t, Opt u) # ?cs4" by simp
        from l obtain st1 rest1 where co: "consume_optional initial_pstate t u ?cs4 = Inr (st1, rest1)"
          and pl: "parse_loop st1 rest1 = Inr st"
          unfolding cs by (auto simp: parse_loop_Opt split: sum.splits)
        from consume_optional_rest_Opt [OF co] have "rest1 = ?cs4" .
        with pl have "st = st1\<lparr>st_output := ''hello'', st_format := ''mp3''\<rparr>"
          by (simp add: parse_loop_o_format)
        with consume_optional_text [OF co] st(1) show ?thesis
          by (simp add: initial_pstate_def)
      qed
    qed
  qed
qed

lemma parse_args_text_only:
  assumes "parse_args [t] = Inr a"
  shows "a = \<lparr>arg_text = t, arg_output = ''speech'', arg_format = ''wav''\<rparr>"
proof -
  from assms obtain cs st where c: "classify [t] = Inr cs"
    and l: "parse_loop initial_pstate cs = Inr st"
    and st: "st_text st = Some (arg_text a)" "st_output st = arg_output a"
            "st_format st = arg_format a" "extras st = []"
    by (rule parse_args_result)
  from classify_result [OF c] obtain c0 where cs: "cs = [(t, c0)]"
    by (cases cs) auto
  show ?thesis
  proof (cases c0)
    case A
    with l st cs show ?thesis
      by (cases a) (auto simp: parse_loop_no_Opt is_Opt_def consume_positionals_def initial_pstate_def)
  next
    case Dash
    with l st cs show ?thesis
      by (auto simp: parse_loop_no_Opt is_Opt_def consume_positionals_def initial_pstate_def)
  next
    case (Opt u)
    with l cs obtain st1 rest1 where co: "consume_optional initial_pstate t u [] = Inr (st1, rest1)"
      and pl: "parse_loop st1 rest1 = Inr st"
      by (auto simp: parse_loop_Opt split: sum.splits)
    from consume_optional_length [OF co] have "rest1 = []" by simp
    with pl have "st = st1" by (simp add: parse_loop_Nil)
    with consume_optional_text [OF co] st(1) show ?thesis
      by (simp add: initial_pstate_def)
  qed
qed

section \<open>Facts about the runs\<close>

lemma request_tts_answer:
  "request_tts k (arg_text a) (arg_format a) (get_base_url w)
       ''gpt-4o-mini-tts'' ''alloy'' (Some ''Speak in a cheerful and positive tone.'') w =
     (let w1 = w\<lparr>requests_issued := requests_issued w @ [tts_request w k a],
                  waited := waited w @ [min (silence w (tts_request w k a))
                                           (timeout (tts_request w k a))]\<rparr>
      in case tts_answer w k a of
           Inl (RequestException exc) \<Rightarrow>
             (Inl (RuntimeError (''Network error while contacting '' @ request_url (get_base_url w)
                                   @ '': '' @ exc)), w1)
         | Inl e \<Rightarrow> (Inl e, w1)
         | Inr r \<Rightarrow>
             if status_code r \<noteq> 200 then
               (Inl (RuntimeError (''API error '' @ show_int (status_code r) @ '': '' @
                      py_str w (if truthy (error_message r) then error_message r
                                else JStr (body_text r)))), w1)
             else (Inr (content r), w1))"
proof -
  let ?req = "tts_request w k a"
  let ?w1 = "w\<lparr>requests_issued := requests_issued w @ [?req],
                  waited := waited w @ [min (silence w ?req) (timeout ?req)]\<rparr>"
  have rp: "requests_post ?req w = (tts_answer w k a, ?w1)"
    by (simp add: tts_answer_def requests_post_def)
  have ps: "py_str ?w1 v = py_str w v" for v
    by (rule py_str_world) simp
  have br: "build_request k (arg_text a) (arg_format a) (get_base_url w)
       ''gpt-4o-mini-tts'' ''alloy'' (Some ''Speak in a cheerful and positive tone.'') = ?req"
    by (simp add: tts_request_def)
  show ?thesis
    unfolding request_tts_def br rp Let_def
    by (simp add: ps split: sum.splits py_exn.splits)
qed

lemma main3_body_answer:
  assumes "environ w ''OPENAI_API_KEY'' = Some k" "k \<noteq> []"
  shows "main3_body a w =
     (let w1 = w\<lparr>requests_issued := requests_issued w @ [tts_request w k a],
                  waited := waited w @ [min (silence w (tts_request w k a))
                                           (timeout (tts_request w k a))]\<rparr>;
          f = output_filename (arg_output a) (arg_format a)
      in case tts_answer w k a of
           Inl (RequestException exc) \<Rightarrow>
             (1, stderr_write (''Network error while contacting '' @ request_url (get_base_url w)
                                 @ '': '' @ exc @ [CHR 0x0A]) w1)
         | Inl (RuntimeError err) \<Rightarrow> (1, stderr_write (err @ [CHR 0x0A]) w1)
         | Inl e \<Rightarrow> uncaught e w1
         | Inr r \<Rightarrow>
             if status_code r \<noteq> 200 then
               (1, stderr_write (''API error '' @ show_int (status_code r) @ '': '' @
                      py_str w (if truthy (error_message r) then error_message r
                                else JStr (body_text r)) @ [CHR 0x0A]) w1)
             else
               (case open_error w f of
                  Some exc \<Rightarrow>
                    (1, stderr_write (''Error writing '' @ f @ '': '' @ exc @ [CHR 0x0A]) w1)
                | None \<Rightarrow>
                    (case write_error w f of
                       Some (exc, n) \<Rightarrow>
                         (1, stderr_write (''Error writing '' @ f @ '': '' @ exc @ [CHR 0x0A])
                               (w1\<lparr>files := (files w)(f \<mapsto> take n (content r))\<rparr>))
                     | None \<Rightarrow>
                         (case print_error w (saved_message f) of
                            Some e \<Rightarrow> uncaught e (w1\<lparr>files := (files w)(f \<mapsto> content r)\<rparr>)
                          | None \<Rightarrow>
                              (0, w1\<lparr>files := (files w)(f \<mapsto> content r),
                                     stdout := stdout w @ [Written (saved_message f @ [CHR 0x0A])]\<rparr>)))))"
proof -
  let ?req = "tts_request w k a"
  let ?w1 = "w\<lparr>requests_issued := requests_issued w @ [?req],
                  waited := waited w @ [min (silence w ?req) (timeout ?req)]\<rparr>"
  let ?f = "output_filename (arg_output a) (arg_format a)"
  have b: "main3_body a w =
     (case request_tts k (arg_text a) (arg_format a) (get_base_url w)
              ''gpt-4o-mini-tts'' ''alloy'' (Some ''Speak in a cheerful and positive tone.'') w of
        (Inl (RuntimeError err), w') \<Rightarrow> (1, stderr_write (err @ [CHR 0x0A]) w')
      | (Inl e, w') \<Rightarrow> uncaught e w'
      | (Inr audio_data, w') \<Rightarrow>
          (let output_file = output_filename (arg_output a) (arg_format a)
           in case write_file output_file audio_data w' of
                (Some (OSError exc), w'') \<Rightarrow>
                  (1, stderr_write (''Error writing '' @ output_file @ '': '' @ exc @ [CHR 0x0A]) w'')
              | (Some e, w'') \<Rightarrow> uncaught e w''
              | (None, w'') \<Rightarrow>
                  (case print (saved_message output_file) w'' of
                     (Some e, w3) \<Rightarrow> uncaught e w3
                   | (None, w3) \<Rightarrow> (0, w3))))"
    using assms by (simp add: main3_body_def)
  note rt = request_tts_answer [of k a w, unfolded Let_def]
  show ?thesis
  proof (cases "tts_answer w k a")
    case (Inl e)
    show ?thesis unfolding b rt Inl Let_def by (cases e) simp_all
  next
    case (Inr r)
    show ?thesis
    proof (cases "status_code r \<noteq> 200")
      case True
      show ?thesis unfolding b rt Inr Let_def using True by simp
    next
      case False
      have wf: "write_file ?f (content r) ?w1 =
         (case open_error w ?f of
            Some e \<Rightarrow> (Some (OSError e), ?w1)
          | None \<Rightarrow>
              (case write_error w ?f of
                 Some (e, n) \<Rightarrow> (Some (OSError e), ?w1\<lparr>files := (files w)(?f \<mapsto> take n (content r))\<rparr>)
               | None \<Rightarrow> (None, ?w1\<lparr>files := (files w)(?f \<mapsto> content r)\<rparr>)))"
        by (simp add: write_file_def split: option.splits prod.splits)
      have pr: "print (saved_message ?f) (?w1\<lparr>files := (files w)(?f \<mapsto> content r)\<rparr>) =
         (case print_error w (saved_message ?f) of
            Some e \<Rightarrow> (Some e, ?w1\<lparr>files := (files w)(?f \<mapsto> content r)\<rparr>)
          | None \<Rightarrow> (None, ?w1\<lparr>files := (files w)(?f \<mapsto> content r),
                            stdout := stdout w @ [Written (saved_message ?f @ [CHR 0x0A])]\<rparr>))"
        by (simp add: print_def split: option.splits)
      show ?thesis
      proof (cases "open_error w ?f")
        case (Some exc)
        show ?thesis unfolding b rt Inr Let_def using False by (simp add: wf Some)
      next
        case None
        note o = None
        show ?thesis
        proof (cases "write_error w ?f")
          case (Some p)
          obtain exc n where p: "p = (exc, n)" by (cases p)
          show ?thesis unfolding b rt Inr Let_def using False by (simp add: wf o Some p)
        next
          case None
          show ?thesis
          proof (cases "print_error w (saved_message ?f)")
            case (Some e)
            show ?thesis unfolding b rt Inr Let_def using False
              by (simp add: wf o None pr Some)
          next
            case n3: None
            show ?thesis unfolding b rt Inr Let_def using False
              by (simp add: wf o None pr n3)
          qed
        qed
      qed
    qed
  qed
qed

lemma sdk_main_calls:
  "sdk_calls (snd (sdk_main client a w)) =
     sdk_calls w @ [\<lparr>client_kwargs = client, create_kwargs = speech_kwargs a\<rparr>]"
  by (simp add: sdk_main_def sdk_create_def save_audio_def uncaught_def stderr_write_def
        print_def write_file_def Let_def
      split: sum.splits option.splits prod.splits)

lemma sdk_main_base_urls:
  "sdk_base_urls (snd (sdk_main client a w)) = sdk_base_urls w @ [client_base_url w client]"
  by (simp add: sdk_main_def sdk_create_def save_audio_def uncaught_def stderr_write_def
        print_def write_file_def Let_def
      split: sum.splits option.splits prod.splits)

lemma parser_exit_quiet:
  "requests_issued (snd (parser_exit e w)) = requests_issued w
   \<and> sdk_calls (snd (parser_exit e w)) = sdk_calls w
   \<and> files (snd (parser_exit e w)) = files w"
  by (cases e) simp_all

lemma missing_key_quiet:
  "fst (missing_key w) = 1
   \<and> stderr (snd (missing_key w)) =
       stderr w @ [Written (''Error: OPENAI_API_KEY environment variable is not set.'' @ [CHR 0x0A])]
   \<and> requests_issued (snd (missing_key w)) = requests_issued w
   \<and> sdk_calls (snd (missing_key w)) = sdk_calls w
   \<and> files (snd (missing_key w)) = files w"
  by (simp add: missing_key_def stderr_write_def)

lemma no_key_body:
  assumes "environ w ''OPENAI_API_KEY'' = None \<or> environ w ''OPENAI_API_KEY'' = Some []"
  shows "main3_body a w = missing_key w"
  using assms by (auto simp: main3_body_def)

lemma main_no_key:
  assumes "environ w ''OPENAI_API_KEY'' = None \<or> environ w ''OPENAI_API_KEY'' = Some []"
    and "run \<in> {main1, main2, main3}"
  shows "run argv w = (case parse_args argv of Inl e \<Rightarrow> parser_exit e w | Inr a \<Rightarrow> missing_key w)"
  using assms
  by (auto simp: main1_def main2_def main3_def no_key_body split: sum.splits)

lemma error_message_nested:
  "error_message r = (case nested_error_message r of None \<Rightarrow> JStr [] | Some v \<Rightarrow> v)"
  by (simp add: error_message_def nested_error_message_def
        split: option.splits json.splits)

lemma sublist_middle: "sublist m (xs @ m @ ys)"
  by (auto simp: sublist_def)

lemma main3_requests:
  assumes "parse_args argv = Inr a"
    and "environ w ''OPENAI_API_KEY'' = Some k" and "k \<noteq> []"
  shows "requests_issued (snd (main3 argv w)) =
     requests_issued w @
       [build_request k (arg_text a) (arg_format a) (get_base_url w)
          ''gpt-4o-mini-tts'' ''alloy'' (Some ''Speak in a cheerful and positive tone.'')]"
    and "waited (snd (main3 argv w)) =
     waited w @ [min (silence w (tts_request w k a)) (timeout (tts_request w k a))]"
proof -
  have m: "main3 argv w = main3_body a w" using assms(1) by (simp add: main3_def)
  show "requests_issued (snd (main3 argv w)) =
     requests_issued w @
       [build_request k (arg_text a) (arg_format a) (get_base_url w)
          ''gpt-4o-mini-tts'' ''alloy'' (Some ''Speak in a cheerful and positive tone.'')]"
    unfolding m main3_body_answer [OF assms(2,3)]
    by (simp add: Let_def stderr_write_def uncaught_def tts_request_def
          split: sum.splits py_exn.splits option.splits prod.splits)
  show "waited (snd (main3 argv w)) =
     waited w @ [min (silence w (tts_request w k a)) (timeout (tts_request w k a))]"
    unfolding m main3_body_answer [OF assms(2,3)]
    by (simp add: Let_def stderr_write_def uncaught_def
          split: sum.splits py_exn.splits option.splits prod.splits)
qed

lemma sdk_mains_calls:
  assumes "parse_args argv = Inr a"
    and "environ w ''OPENAI_API_KEY'' = Some k" and "k \<noteq> []"
  shows "sdk_calls (snd (main1 argv w)) =
           sdk_calls w @ [\<lparr>client_kwargs = [], create_kwargs = speech_kwargs a\<rparr>]"
    and "sdk_calls (snd (main2 argv w)) =
           sdk_calls w @ [\<lparr>client_kwargs = [(''api_key'', k), (''base_url'', OPENAI_BASE_URL)],
                           create_kwargs = speech_kwargs a\<rparr>]"
  using assms by (simp_all add: main1_def main2_def sdk_main_calls)

lemma sdk_mains_base_urls:
  assumes "parse_args argv = Inr a"
    and "environ w ''OPENAI_API_KEY'' = Some k" and "k \<noteq> []"
  shows "sdk_base_urls (snd (main1 argv w)) = sdk_base_urls w @ [client_base_url w []]"
    and "sdk_base_urls (snd (main2 argv w)) =
           sdk_base_urls w @ [client_base_url w [(''api_key'', k), (''base_url'', OPENAI_BASE_URL)]]"
  using assms by (simp_all add: main1_def main2_def sdk_main_base_urls)

section \<open>The claims\<close>

text \<open>
  C1. For every successful run of \<open>3-tts.py\<close> (the request is answered with status 200 and
  body \<open>B\<close>), the program writes exactly the bytes \<open>B\<close> to the output file: whenever the
  file can be opened and written, it holds exactly \<open>B\<close> after the run and no other file
  has changed; the run ends with status 0 exactly when, besides, the closing message can be
  printed, so a run that ends with status 0 has written \<open>B\<close>. With the text as the only
  argument the file is \<open>speech.wav\<close>, and with \<open>-o hello --format mp3\<close> it is \<open>hello.mp3\<close>.
\<close>

theorem success_writes_response_body:
  assumes "parse_args argv = Inr a"
    and "environ w ''OPENAI_API_KEY'' = Some k" and "k \<noteq> []"
    and "tts_answer w k a = Inr r" and "status_code r = 200"
  shows "(open_error w (output_filename (arg_output a) (arg_format a)) = None
          \<and> write_error w (output_filename (arg_output a) (arg_format a)) = None \<longrightarrow>
            files (snd (main3 argv w))
              = (files w)(output_filename (arg_output a) (arg_format a) \<mapsto> content r))
     \<and> (fst (main3 argv w) = 0
            \<longleftrightarrow> open_error w (output_filename (arg_output a) (arg_format a)) = None
              \<and> write_error w (output_filename (arg_output a) (arg_format a)) = None
              \<and> print_error w (saved_message (output_filename (arg_output a) (arg_format a)))
                  = None)
     \<and> (fst (main3 argv w) = 0 \<longrightarrow>
            files (snd (main3 argv w))
              = (files w)(output_filename (arg_output a) (arg_format a) \<mapsto> content r))
     \<and> (argv = [arg_text a] \<longrightarrow>
            output_filename (arg_output a) (arg_format a) = ''speech.wav'')
     \<and> (argv = [arg_text a, ''-o'', ''hello'', ''--format'', ''mp3''] \<longrightarrow>
            output_filename (arg_output a) (arg_format a) = ''hello.mp3'')"
proof -
  let ?f = "output_filename (arg_output a) (arg_format a)"
  have m: "main3 argv w = main3_body a w" using assms(1) by (simp add: main3_def)
  note b = main3_body_answer [OF assms(2,3), of a]
  have status: "fst (main3 argv w) =
       (if open_error w ?f = None \<and> write_error w ?f = None
           \<and> print_error w (saved_message ?f) = None then 0 else 1)"
    unfolding m b using assms(4,5)
    by (simp add: Let_def stderr_write_def uncaught_def split: option.splits)
  have written: "files (snd (main3 argv w)) = (files w)(?f \<mapsto> content r)"
    if "open_error w ?f = None" "write_error w ?f = None"
    unfolding m b using assms(4,5) that
    by (simp add: Let_def stderr_write_def uncaught_def split: option.splits)
  have d1: "?f = ''speech.wav''" if "argv = [arg_text a]"
  proof -
    from assms(1) that have "a = \<lparr>arg_text = arg_text a, arg_output = ''speech'', arg_format = ''wav''\<rparr>"
      by (metis parse_args_text_only)
    then have "arg_output a = ''speech''" "arg_format a = ''wav''"
      by (metis args.select_convs(2), metis args.select_convs(3))
    then show ?thesis by (simp add: output_filename_def endswith_def lower_def)
  qed
  have d2: "?f = ''hello.mp3''" if "argv = [arg_text a, ''-o'', ''hello'', ''--format'', ''mp3'']"
  proof -
    from assms(1) that have "a = \<lparr>arg_text = arg_text a, arg_output = ''hello'', arg_format = ''mp3''\<rparr>"
      by (metis parse_args_text_o_format)
    then have "arg_output a = ''hello''" "arg_format a = ''mp3''"
      by (metis args.select_convs(2), metis args.select_convs(3))
    then show ?thesis by (simp add: output_filename_def endswith_def lower_def)
  qed
  from status have zero: "fst (main3 argv w) = 0
       \<longleftrightarrow> open_error w ?f = None \<and> write_error w ?f = None
         \<and> print_error w (saved_message ?f) = None"
    by (simp split: if_splits)
  from zero written d1 d2 show ?thesis by blast
qed

theorem success_writes_response_body_witness:
  "parse_args [''Hello world'', ''-o'', ''hello'', ''--format'', ''mp3'']
     = Inr \<lparr>arg_text = ''Hello world'', arg_output = ''hello'', arg_format = ''mp3''\<rparr>
   \<and> fst (main3 [''Hello world'', ''-o'', ''hello'', ''--format'', ''mp3'']
          (quiet_world\<lparr>environ := [''OPENAI_API_KEY'' \<mapsto> ''sk-test''],
             post := (\<lambda>req. Inr \<lparr>status_code = 200, content = ''RIFF...'',
                                  body_text = ''RIFF...'', body_json = None\<rparr>)\<rparr>)) = 0
   \<and> files (snd (main3 [''Hello world'', ''-o'', ''hello'', ''--format'', ''mp3'']
          (quiet_world\<lparr>environ := [''OPENAI_API_KEY'' \<mapsto> ''sk-test''],
             post := (\<lambda>req. Inr \<lparr>status_code = 200, content = ''RIFF...'',
                                  body_text = ''RIFF...'', body_json = None\<rparr>)\<rparr>)))
       ''hello.mp3'' = Some ''RIFF...''
   \<and> fst (main3 [''Hello world'', ''-o'', ''hello'', ''--format'', ''mp3'']
          (quiet_world\<lparr>environ := [''OPENAI_API_KEY'' \<mapsto> ''sk-test''],
             post := (\<lambda>req. Inr \<lparr>status_code = 200, content = ''RIFF...'',
                                  body_text = ''RIFF...'', body_json = None\<rparr>),
             print_error := (\<lambda>s. Some (OtherException ''UnicodeEncodeError''))\<rparr>)) \<noteq> 0
   \<and> files (snd (main3 [''Hello world'', ''-o'', ''hello'', ''--format'', ''mp3'']
          (quiet_world\<lparr>environ := [''OPENAI_API_KEY'' \<mapsto> ''sk-test''],
             post := (\<lambda>req. Inr \<lparr>status_code = 200, content = ''RIFF...'',
                                  body_text = ''RIFF...'', body_json = None\<rparr>),
             print_error := (\<lambda>s. Some (OtherException ''UnicodeEncodeError''))\<rparr>)))
       ''hello.mp3'' = Some ''RIFF...''"
proof -
  let ?argv = "[''Hello world'', ''-o'', ''hello'', ''--format'', ''mp3'']"
  let ?a = "\<lparr>arg_text = ''Hello world'', arg_output = ''hello'', arg_format = ''mp3''\<rparr>"
  let ?r = "\<lparr>status_code = 200, content = ''RIFF...'', body_text = ''RIFF...'', body_json = None\<rparr>"
  let ?w = "quiet_world\<lparr>environ := [''OPENAI_API_KEY'' \<mapsto> ''sk-test''], post := (\<lambda>req. Inr ?r)\<rparr>"
  let ?v = "quiet_world\<lparr>environ := [''OPENAI_API_KEY'' \<mapsto> ''sk-test''], post := (\<lambda>req. Inr ?r),
              print_error := (\<lambda>s. Some (OtherException ''UnicodeEncodeError''))\<rparr>"
  have p: "parse_args ?argv = Inr ?a" by code_simp
  have k: "environ ?w ''OPENAI_API_KEY'' = Some ''sk-test''" by (simp add: quiet_world_def)
  have k': "environ ?v ''OPENAI_API_KEY'' = Some ''sk-test''" by (simp add: quiet_world_def)
  have n: "''sk-test'' \<noteq> []" by simp
  have t: "tts_answer ?w ''sk-test'' ?a = Inr ?r"
    by (simp add: tts_answer_def requests_post_def quiet_world_def)
  have t': "tts_answer ?v ''sk-test'' ?a = Inr ?r"
    by (simp add: tts_answer_def requests_post_def quiet_world_def)
  have s: "status_code ?r = 200" by simp
  have f: "output_filename (arg_output ?a) (arg_format ?a) = ''hello.mp3''" by code_simp
  have o: "open_error ?w ''hello.mp3'' = None" "write_error ?w ''hello.mp3'' = None"
    "print_error ?w (saved_message ''hello.mp3'') = None"
    "open_error ?v ''hello.mp3'' = None" "write_error ?v ''hello.mp3'' = None"
    "print_error ?v (saved_message ''hello.mp3'') \<noteq> None"
    by (simp_all add: quiet_world_def)
  from success_writes_response_body [OF p k n t s, unfolded f]
    success_writes_response_body [OF p k' n t' s, unfolded f] o p
  show ?thesis by simp
qed

text \<open>
  C2. For every basename \<open>b\<close> and every format \<open>f\<close> of \<open>wav, mp3, opus, flac\<close>, the output
  file name is \<open>b\<close> when the lowercase of \<open>b\<close> ends with a dot followed by \<open>f\<close> (that is,
  when \<open>b\<close> ends with a string whose lowercase is \<open>.f\<close>: a match that ignores case), and
  \<open>b.f\<close> otherwise; with \<open>--output hello.wav --format wav\<close> the name is \<open>hello.wav\<close>, not
  \<open>hello.wav.wav\<close>.
\<close>

theorem output_filename_extension:
  "f \<in> set format_choices \<Longrightarrow>
     output_filename b f = (if suffix (''.'' @ f) (lower b) then b else b @ ''.'' @ f)
     \<and> (suffix (''.'' @ f) (lower b) \<longleftrightarrow> (\<exists>p s. b = p @ s \<and> lower s = ''.'' @ f))
     \<and> parse_args [''hi'', ''--output'', ''hello.wav'', ''--format'', ''wav'']
         = Inr \<lparr>arg_text = ''hi'', arg_output = ''hello.wav'', arg_format = ''wav''\<rparr>
     \<and> output_filename ''hello.wav'' ''wav'' = ''hello.wav''"
proof (intro conjI)
  show "output_filename b f = (if suffix (''.'' @ f) (lower b) then b else b @ ''.'' @ f)"
    by (simp add: output_filename_def endswith_suffix)
  show "suffix (''.'' @ f) (lower b) \<longleftrightarrow> (\<exists>p s. b = p @ s \<and> lower s = ''.'' @ f)"
    by (rule suffix_lower_iff)
  show "parse_args [''hi'', ''--output'', ''hello.wav'', ''--format'', ''wav'']
         = Inr \<lparr>arg_text = ''hi'', arg_output = ''hello.wav'', arg_format = ''wav''\<rparr>"
    by code_simp
  show "output_filename ''hello.wav'' ''wav'' = ''hello.wav''"
    by code_simp
qed

theorem output_filename_extension_witness:
  "''wav'' \<in> set format_choices
   \<and> output_filename ''HELLO.WAV'' ''wav'' = ''HELLO.WAV''
   \<and> suffix ''.wav'' (lower ''HELLO.WAV'')
   \<and> output_filename ''hello.wav'' ''wav'' = ''hello.wav''"
proof -
  have h: "''wav'' \<in> set format_choices" by (simp add: format_choices_def)
  have s: "suffix ''.wav'' (lower ''HELLO.WAV'')" by code_simp
  show ?thesis
    using h s output_filename_extension [OF h, of "''HELLO.WAV''"] by simp
qed

text \<open>
  C10. For every base URL \<open>u\<close>, the URL that \<open>request_tts\<close> posts to is \<open>u\<close> without all its
  trailing \<open>/\<close> characters, followed by \<open>/audio/speech\<close>; hence \<open>u\<close> and \<open>u/\<close> give the same
  URL, and a trailing slash of the base URL never gives \<open>//audio/speech\<close>.
\<close>

theorem request_url_strips_slashes:
  "(\<exists>p n. u = p @ replicate n (CHR ''/'') \<and> (p = [] \<or> last p \<noteq> CHR ''/'')
       \<and> request_url u = p @ ''/audio/speech''
       \<and> map url (requests_issued (snd (request_tts k t f u m v i w)))
           = map url (requests_issued w) @ [p @ ''/audio/speech''])
   \<and> request_url (u @ ''/'') = request_url u
   \<and> \<not> suffix ''//audio/speech'' (request_url u)"
proof (intro conjI)
  let ?p = "rstrip u (CHR ''/'')"
  let ?n = "length (takeWhile (\<lambda>x. x = CHR ''/'') (rev u))"
  have "u = ?p @ replicate ?n (CHR ''/'')" by (rule rstrip_decompose)
  moreover have "?p = [] \<or> last ?p \<noteq> CHR ''/''" by (rule rstrip_last)
  moreover have "request_url u = ?p @ ''/audio/speech''" by (simp add: request_url_def)
  moreover have "map url (requests_issued (snd (request_tts k t f u m v i w)))
                 = map url (requests_issued w) @ [?p @ ''/audio/speech'']"
    by (simp add: request_tts_issues build_request_def request_url_def)
  ultimately show "\<exists>p n. u = p @ replicate n (CHR ''/'') \<and> (p = [] \<or> last p \<noteq> CHR ''/'')
       \<and> request_url u = p @ ''/audio/speech''
       \<and> map url (requests_issued (snd (request_tts k t f u m v i w)))
           = map url (requests_issued w) @ [p @ ''/audio/speech'']"
    by blast
  show "request_url (u @ ''/'') = request_url u"
    by (simp add: request_url_def rstrip_snoc)
  have "\<not> suffix [CHR ''/''] ?p" using rstrip_last [of u "CHR ''/''"] by (auto simp: suffix_single)
  then have "\<not> suffix ([CHR ''/''] @ ''/audio/speech'') (?p @ ''/audio/speech'')"
    by (simp only: same_suffix_suffix not_False_eq_True)
  then show "\<not> suffix ''//audio/speech'' (request_url u)"
    by (simp add: request_url_def)
qed

theorem request_url_strips_slashes_witness:
  "request_url (''https://api.openai.com/v1'' @ ''/'') = ''https://api.openai.com/v1/audio/speech''
   \<and> \<not> suffix ''//audio/speech'' (request_url ''https://api.openai.com/v1/'')"
proof -
  have "request_url ''https://api.openai.com/v1'' = ''https://api.openai.com/v1/audio/speech''"
    by code_simp
  then show ?thesis
    using request_url_strips_slashes [of "''https://api.openai.com/v1''"]
      request_url_strips_slashes [of "''https://api.openai.com/v1/''"]
    by simp
qed

text \<open>
  C3, as it holds of the scripts. For every invocation of any of the three scripts other than a request for
  help (\<open>-h/--help\<close>, which prints the help and exits with status 0 before the check), in
  an environment where \<open>OPENAI_API_KEY\<close> is unset or empty, the program exits with a
  non-zero status, writes one diagnostic to standard error and issues no request and no SDK
  call; when the arguments parse, the status is 1 and the diagnostic is the message about
  the key. The last theorem is the invocation \<open>--help\<close> without a key: status 0 and
  nothing on standard error.
\<close>

theorem missing_key_stops_before_network:
  assumes "environ w ''OPENAI_API_KEY'' = None \<or> environ w ''OPENAI_API_KEY'' = Some []"
    and "parse_args argv \<noteq> Inl HelpExit"
    and "run \<in> {main1, main2, main3}"
  shows "fst (run argv w) \<noteq> 0
     \<and> (\<exists>d. stderr (snd (run argv w)) = stderr w @ [d])
     \<and> requests_issued (snd (run argv w)) = requests_issued w
     \<and> sdk_calls (snd (run argv w)) = sdk_calls w
     \<and> (\<forall>a. parse_args argv = Inr a \<longrightarrow>
            fst (run argv w) = 1
          \<and> stderr (snd (run argv w)) =
              stderr w @ [Written (''Error: OPENAI_API_KEY environment variable is not set.''
                                     @ [CHR 0x0A])])"
proof (cases "parse_args argv")
  case (Inl e)
  with assms(2) obtain pe where "e = ErrorExit pe" by (cases e) auto
  with Inl show ?thesis by (simp add: main_no_key [OF assms(1,3)])
next
  case (Inr a)
  then show ?thesis using missing_key_quiet [of w]
    by (simp add: main_no_key [OF assms(1,3)])
qed

theorem missing_key_stops_before_network_witness:
  "parse_args [''Hello world''] = Inr \<lparr>arg_text = ''Hello world'', arg_output = ''speech'', arg_format = ''wav''\<rparr>
   \<and> environ quiet_world ''OPENAI_API_KEY'' = None
   \<and> fst (main3 [''Hello world''] quiet_world) = 1
   \<and> stderr (snd (main3 [''Hello world''] quiet_world))
       = [Written (''Error: OPENAI_API_KEY environment variable is not set.'' @ [CHR 0x0A])]
   \<and> requests_issued (snd (main3 [''Hello world''] quiet_world)) = []
   \<and> fst (main1 [''Hello world''] (quiet_world\<lparr>environ := [''OPENAI_API_KEY'' \<mapsto> '''']\<rparr>)) = 1
   \<and> sdk_calls (snd (main1 [''Hello world''] (quiet_world\<lparr>environ := [''OPENAI_API_KEY'' \<mapsto> '''']\<rparr>))) = []"
proof -
  let ?w = "quiet_world\<lparr>environ := [''OPENAI_API_KEY'' \<mapsto> '''']\<rparr>"
  have p: "parse_args [''Hello world'']
             = Inr \<lparr>arg_text = ''Hello world'', arg_output = ''speech'', arg_format = ''wav''\<rparr>"
    by code_simp
  then have h: "parse_args [''Hello world''] \<noteq> Inl HelpExit" by simp
  have e1: "environ quiet_world ''OPENAI_API_KEY'' = None \<or> environ quiet_world ''OPENAI_API_KEY'' = Some []"
    by (simp add: quiet_world_def)
  have e2: "environ ?w ''OPENAI_API_KEY'' = None \<or> environ ?w ''OPENAI_API_KEY'' = Some []"
    by simp
  have r3: "main3 \<in> {main1, main2, main3}" and r1: "main1 \<in> {main1, main2, main3}" by simp_all
  from missing_key_stops_before_network [OF e1 h r3] missing_key_stops_before_network [OF e2 h r1] p
  show ?thesis by (simp add: quiet_world_def)
qed

theorem help_exits_zero_without_key:
  "environ quiet_world ''OPENAI_API_KEY'' = None
   \<and> fst (main3 [''--help''] quiet_world) = 0
   \<and> stderr (snd (main3 [''--help''] quiet_world)) = []
   \<and> stdout (snd (main3 [''--help''] quiet_world)) = [ArgparseHelp]"
proof -
  have "parse_args [''--help''] = Inl HelpExit" by code_simp
  then show ?thesis by (simp add: main3_def quiet_world_def)
qed

text \<open>
  C4, as it holds of the scripts. For every answer with a status code other than 200,
  \<open>3-tts.py\<close> exits with status 1, writes no file, and writes the line
  \<open>API error <code>: <detail>\<close>, which contains the status code. When the body is JSON with
  a nested \<open>error.message\<close> whose value counts as true in Python (a string that is not
  empty, a number that is not zero, \<open>true\<close>, a list or an object that is not empty), the
  detail is that message as \<open>str()\<close> renders it; in every other case (there is no such
  field, or its value is \<open>null\<close>, \<open>false\<close>, zero or empty) the detail is the raw response
  text. For status 400 and the body \<open>{"error":{"message":"bad input"}}\<close> the diagnostic
  contains \<open>bad input\<close>. The last theorem is a body whose \<open>error.message\<close> is \<open>null\<close>: the
  field is there, and the line carries the raw response text, not the message.
\<close>

theorem api_error_is_reported:
  assumes "parse_args argv = Inr a"
    and "environ w ''OPENAI_API_KEY'' = Some k" and "k \<noteq> []"
    and "tts_answer w k a = Inr r" and "status_code r \<noteq> 200"
  shows "fst (main3 argv w) = 1
     \<and> files (snd (main3 argv w)) = files w
     \<and> (\<exists>d. stderr (snd (main3 argv w)) =
              stderr w @ [Written (''API error '' @ show_int (status_code r) @ '': '' @ d
                                     @ [CHR 0x0A])]
           \<and> sublist (show_int (status_code r))
               (''API error '' @ show_int (status_code r) @ '': '' @ d @ [CHR 0x0A])
           \<and> (\<forall>m. nested_error_message r = Some (JStr m) \<and> m \<noteq> [] \<longrightarrow> d = m)
           \<and> (\<forall>i. nested_error_message r = Some (JInt i) \<and> i \<noteq> 0 \<longrightarrow> d = show_int i)
           \<and> (\<forall>x. nested_error_message r = Some (JFloat x) \<and> x \<noteq> ''0.0'' \<and> x \<noteq> ''-0.0''
                  \<longrightarrow> d = x)
           \<and> (nested_error_message r = Some (JBool True) \<longrightarrow> d = ''True'')
           \<and> (\<forall>x xs. nested_error_message r = Some (JArr (x # xs))
                  \<longrightarrow> d = container_repr w (JArr (x # xs)))
           \<and> (\<forall>x xs. nested_error_message r = Some (JObj (x # xs))
                  \<longrightarrow> d = container_repr w (JObj (x # xs)))
           \<and> (nested_error_message r \<in>
                  {None, Some JNull, Some (JBool False), Some (JInt 0), Some (JFloat ''0.0''),
                   Some (JFloat ''-0.0''), Some (JStr []), Some (JArr []), Some (JObj [])}
                  \<longrightarrow> d = body_text r))"
proof -
  let ?d = "py_str w (if truthy (error_message r) then error_message r else JStr (body_text r))"
  let ?msg = "''API error '' @ show_int (status_code r) @ '': '' @ ?d @ [CHR 0x0A]"
  have m: "main3 argv w = main3_body a w" using assms(1) by (simp add: main3_def)
  note b = main3_body_answer [OF assms(2,3), of a]
  have run: "fst (main3 argv w) = 1" "files (snd (main3 argv w)) = files w"
    "stderr (snd (main3 argv w)) = stderr w @ [Written ?msg]"
    unfolding m b using assms(4,5) by (simp_all add: Let_def stderr_write_def)
  have code: "sublist (show_int (status_code r)) ?msg"
    using sublist_middle [of "show_int (status_code r)" "''API error ''" "'': '' @ ?d @ [CHR 0x0A]"]
    by simp
  have d: "?d = (case nested_error_message r of
                   None \<Rightarrow> body_text r
                 | Some v \<Rightarrow> if truthy v then py_str w v else body_text r)"
  proof (cases "nested_error_message r")
    case None
    then show ?thesis by (simp add: error_message_nested py_str_def)
  next
    case (Some v)
    then have e: "error_message r = v" by (simp add: error_message_nested)
    show ?thesis unfolding e Some by (cases v) (simp_all add: py_str_def)
  qed
  have 1: "?d = m" if "nested_error_message r = Some (JStr m) \<and> m \<noteq> []" for m
    using that unfolding d by (simp add: py_str_def)
  have 2: "?d = show_int i" if "nested_error_message r = Some (JInt i) \<and> i \<noteq> 0" for i
    using that unfolding d by (simp add: py_str_def)
  have 3: "?d = x"
    if "nested_error_message r = Some (JFloat x) \<and> x \<noteq> ''0.0'' \<and> x \<noteq> ''-0.0''" for x
    using that unfolding d by (simp add: py_str_def)
  have 4: "?d = ''True''" if "nested_error_message r = Some (JBool True)"
    using that unfolding d by (simp add: py_str_def)
  have 5: "?d = container_repr w (JArr (x # xs))"
    if "nested_error_message r = Some (JArr (x # xs))" for x xs
    using that unfolding d by (simp add: py_str_def)
  have 6: "?d = container_repr w (JObj (x # xs))"
    if "nested_error_message r = Some (JObj (x # xs))" for x xs
    using that unfolding d by (simp add: py_str_def)
  have 7: "?d = body_text r"
    if "nested_error_message r \<in>
          {None, Some JNull, Some (JBool False), Some (JInt 0), Some (JFloat ''0.0''),
           Some (JFloat ''-0.0''), Some (JStr []), Some (JArr []), Some (JObj [])}"
    using that unfolding d by auto
  show ?thesis
    apply (intro conjI)
      apply (rule run(1))
     apply (rule run(2))
    apply (rule exI [of _ ?d])
    apply (intro conjI allI impI)
            apply (rule run(3))
           apply (rule code)
          apply (erule 1)
         apply (erule 2)
        apply (erule 3)
       apply (erule 4)
      apply (erule 5)
     apply (erule 6)
    apply (erule 7)
    done
qed

theorem api_error_is_reported_witness:
  "fst (main3 [''Hello world'']
          (quiet_world\<lparr>environ := [''OPENAI_API_KEY'' \<mapsto> ''sk-test''],
             post := (\<lambda>req. Inr \<lparr>status_code = 400,
                        content = ''{\"error\":{\"message\":\"bad input\"}}'',
                        body_text = ''{\"error\":{\"message\":\"bad input\"}}'',
                        body_json = Some (JObj [(''error'', JObj [(''message'', JStr ''bad input'')])])\<rparr>)\<rparr>)) = 1
   \<and> stderr (snd (main3 [''Hello world'']
          (quiet_world\<lparr>environ := [''OPENAI_API_KEY'' \<mapsto> ''sk-test''],
             post := (\<lambda>req. Inr \<lparr>status_code = 400,
                        content = ''{\"error\":{\"message\":\"bad input\"}}'',
                        body_text = ''{\"error\":{\"message\":\"bad input\"}}'',
                        body_json = Some (JObj [(''error'', JObj [(''message'', JStr ''bad input'')])])\<rparr>)\<rparr>)))
       = [Written (''API error 400: bad input'' @ [CHR 0x0A])]
   \<and> sublist ''bad input'' (''API error 400: bad input'' @ [CHR 0x0A])"
proof -
  let ?a = "\<lparr>arg_text = ''Hello world'', arg_output = ''speech'', arg_format = ''wav''\<rparr>"
  let ?r = "\<lparr>status_code = 400,
             content = ''{\"error\":{\"message\":\"bad input\"}}'',
             body_text = ''{\"error\":{\"message\":\"bad input\"}}'',
             body_json = Some (JObj [(''error'', JObj [(''message'', JStr ''bad input'')])])\<rparr>"
  let ?w = "quiet_world\<lparr>environ := [''OPENAI_API_KEY'' \<mapsto> ''sk-test''], post := (\<lambda>req. Inr ?r)\<rparr>"
  have p: "parse_args [''Hello world''] = Inr ?a" by code_simp
  have k: "environ ?w ''OPENAI_API_KEY'' = Some ''sk-test''" by simp
  have n: "''sk-test'' \<noteq> []" by simp
  have t: "tts_answer ?w ''sk-test'' ?a = Inr ?r"
    by (simp add: tts_answer_def requests_post_def quiet_world_def)
  have s: "status_code ?r \<noteq> 200" by simp
  have e: "nested_error_message ?r = Some (JStr ''bad input'')"
    by (simp add: nested_error_message_def)
  have c: "show_int 400 = ''400''" by code_simp
  have sub: "sublist ''bad input'' (''API error 400: bad input'' @ [CHR 0x0A])"
    using sublist_middle [of "''bad input''" "''API error 400: ''" "[CHR 0x0A]"] by simp
  note th = api_error_is_reported [OF p k n t s]
  have m1: "fst (main3 [''Hello world''] ?w) = 1"
    using th by (rule conjunct1)
  from th [THEN conjunct2, THEN conjunct2] obtain d where
    d: "stderr (snd (main3 [''Hello world''] ?w)) =
          stderr ?w @ [Written (''API error '' @ show_int (status_code ?r) @ '': '' @ d @ [CHR 0x0A])]
        \<and> sublist (show_int (status_code ?r))
               (''API error '' @ show_int (status_code ?r) @ '': '' @ d @ [CHR 0x0A])
        \<and> (\<forall>m. nested_error_message ?r = Some (JStr m) \<and> m \<noteq> [] \<longrightarrow> d = m)
        \<and> (\<forall>i. nested_error_message ?r = Some (JInt i) \<and> i \<noteq> 0 \<longrightarrow> d = show_int i)
        \<and> (\<forall>x. nested_error_message ?r = Some (JFloat x) \<and> x \<noteq> ''0.0'' \<and> x \<noteq> ''-0.0''
                  \<longrightarrow> d = x)
        \<and> (nested_error_message ?r = Some (JBool True) \<longrightarrow> d = ''True'')
        \<and> (\<forall>x xs. nested_error_message ?r = Some (JArr (x # xs))
                  \<longrightarrow> d = container_repr ?w (JArr (x # xs)))
        \<and> (\<forall>x xs. nested_error_message ?r = Some (JObj (x # xs))
                  \<longrightarrow> d = container_repr ?w (JObj (x # xs)))
        \<and> (nested_error_message ?r \<in>
                  {None, Some JNull, Some (JBool False), Some (JInt 0), Some (JFloat ''0.0''),
                   Some (JFloat ''-0.0''), Some (JStr []), Some (JArr []), Some (JObj [])}
                  \<longrightarrow> d = body_text ?r)"
    by (rule exE)
  from d have d3: "\<forall>m. nested_error_message ?r = Some (JStr m) \<and> m \<noteq> [] \<longrightarrow> d = m"
    by (rule conjunct2 [THEN conjunct2, THEN conjunct1])
  from d3 e have dv: "d = ''bad input''" by simp
  from d have "stderr (snd (main3 [''Hello world''] ?w)) =
          stderr ?w @ [Written (''API error '' @ show_int (status_code ?r) @ '': '' @ d @ [CHR 0x0A])]"
    by (rule conjunct1)
  then have m2: "stderr (snd (main3 [''Hello world''] ?w))
       = [Written (''API error 400: bad input'' @ [CHR 0x0A])]"
    by (simp add: dv c quiet_world_def)
  from m1 m2 sub show ?thesis by (intro conjI)
qed


theorem null_message_prints_raw_text:
  "nested_error_message
      \<lparr>status_code = 400,
       content = ''{\"error\":{\"message\":null}}'',
       body_text = ''{\"error\":{\"message\":null}}'',
       body_json = Some (JObj [(''error'', JObj [(''message'', JNull)])])\<rparr> = Some JNull
   \<and> stderr (snd (main3 [''Hello world'']
          (quiet_world\<lparr>environ := [''OPENAI_API_KEY'' \<mapsto> ''sk-test''],
             post := (\<lambda>req. Inr \<lparr>status_code = 400,
                        content = ''{\"error\":{\"message\":null}}'',
                        body_text = ''{\"error\":{\"message\":null}}'',
                        body_json = Some (JObj [(''error'', JObj [(''message'', JNull)])])\<rparr>)\<rparr>)))
       = [Written (''API error 400: {\"error\":{\"message\":null}}'' @ [CHR 0x0A])]
   \<and> py_str quiet_world JNull = ''None''
   \<and> \<not> sublist ''None'' (''API error 400: {\"error\":{\"message\":null}}'' @ [CHR 0x0A])"
proof -
  let ?a = "\<lparr>arg_text = ''Hello world'', arg_output = ''speech'', arg_format = ''wav''\<rparr>"
  let ?r = "\<lparr>status_code = 400,
             content = ''{\"error\":{\"message\":null}}'',
             body_text = ''{\"error\":{\"message\":null}}'',
             body_json = Some (JObj [(''error'', JObj [(''message'', JNull)])])\<rparr>"
  let ?w = "quiet_world\<lparr>environ := [''OPENAI_API_KEY'' \<mapsto> ''sk-test''], post := (\<lambda>req. Inr ?r)\<rparr>"
  have p: "parse_args [''Hello world''] = Inr ?a" by code_simp
  have k: "environ ?w ''OPENAI_API_KEY'' = Some ''sk-test''" by simp
  have n: "''sk-test'' \<noteq> []" by simp
  have t: "tts_answer ?w ''sk-test'' ?a = Inr ?r"
    by (simp add: tts_answer_def requests_post_def quiet_world_def)
  have e: "nested_error_message ?r = Some JNull"
    by (simp add: nested_error_message_def)
  have em: "error_message ?r = JNull"
    by (simp add: error_message_def)
  have c: "show_int 400 = ''400''" by code_simp
  have m: "main3 [''Hello world''] ?w = main3_body ?a ?w" using p by (simp add: main3_def)
  have err: "stderr (snd (main3 [''Hello world''] ?w))
       = [Written (''API error 400: {\"error\":{\"message\":null}}'' @ [CHR 0x0A])]"
    unfolding m main3_body_answer [OF k n] t
    by (simp add: Let_def stderr_write_def em c py_str_def quiet_world_def)
  have ns: "\<not> sublist ''None'' (''API error 400: {\"error\":{\"message\":null}}'' @ [CHR 0x0A])"
    by (simp add: sublist_Cons_right)
  from e err ns show ?thesis by (simp add: py_str_def)
qed

text \<open>
  C5. For every failure of the transport (a \<open>requests.RequestException\<close>: DNS, connection,
  timeout) \<open>3-tts.py\<close> exits with status 1 and the diagnostic \<open>Network error while
  contacting <url>: <cause>\<close>, and no file is created or written.
\<close>

theorem network_failure_writes_nothing:
  assumes "parse_args argv = Inr a"
    and "environ w ''OPENAI_API_KEY'' = Some k" and "k \<noteq> []"
    and "tts_answer w k a = Inl (RequestException cause)"
  shows "fst (main3 argv w) = 1
     \<and> stderr (snd (main3 argv w)) =
         stderr w @ [Written (''Network error while contacting '' @ request_url (get_base_url w)
                                @ '': '' @ cause @ [CHR 0x0A])]
     \<and> files (snd (main3 argv w)) = files w
     \<and> stdout (snd (main3 argv w)) = stdout w"
proof -
  have m: "main3 argv w = main3_body a w" using assms(1) by (simp add: main3_def)
  note b = main3_body_answer [OF assms(2,3), of a]
  show ?thesis unfolding m b using assms(4) by (simp add: Let_def stderr_write_def)
qed

theorem network_failure_writes_nothing_witness:
  "fst (main3 [''Hello world''] (quiet_world\<lparr>environ := [''OPENAI_API_KEY'' \<mapsto> ''sk-test'']\<rparr>)) = 1
   \<and> stderr (snd (main3 [''Hello world'']
                 (quiet_world\<lparr>environ := [''OPENAI_API_KEY'' \<mapsto> ''sk-test'']\<rparr>)))
       = [Written (''Network error while contacting https://api.openai.com/v1/audio/speech: ''
                   @ ''connection refused'' @ [CHR 0x0A])]
   \<and> files (snd (main3 [''Hello world'']
                 (quiet_world\<lparr>environ := [''OPENAI_API_KEY'' \<mapsto> ''sk-test'']\<rparr>))) = Map.empty"
proof -
  let ?a = "\<lparr>arg_text = ''Hello world'', arg_output = ''speech'', arg_format = ''wav''\<rparr>"
  let ?w = "quiet_world\<lparr>environ := [''OPENAI_API_KEY'' \<mapsto> ''sk-test'']\<rparr>"
  have p: "parse_args [''Hello world''] = Inr ?a" by code_simp
  have k: "environ ?w ''OPENAI_API_KEY'' = Some ''sk-test''" by simp
  have n: "''sk-test'' \<noteq> []" by simp
  have t: "tts_answer ?w ''sk-test'' ?a = Inl (RequestException ''connection refused'')"
    by (simp add: tts_answer_def requests_post_def quiet_world_def)
  have u: "request_url (get_base_url ?w) = ''https://api.openai.com/v1/audio/speech''"
    by (simp add: get_base_url_def quiet_world_def DEFAULT_OPENAI_BASE_URL_def request_url_def rstrip_def)
  from network_failure_writes_nothing [OF p k n t] u show ?thesis
    by (simp add: quiet_world_def)
qed

text \<open>
  C6, as it holds of the scripts. For every invocation of \<open>3-tts.py\<close> that reaches the request (the arguments
  parse, with text \<open>t\<close> and format \<open>f\<close>, and the key is set), the request issued is a POST
  to the base URL without its trailing slashes followed by \<open>/audio/speech\<close>, with the
  headers \<open>Authorization: Bearer <key>\<close> and \<open>Content-Type: application/json\<close>, and a JSON
  body with exactly the fields \<open>model\<close>, \<open>voice\<close>, \<open>input = t\<close>, \<open>instructions\<close> and
  \<open>response_format = f\<close>; \<open>1-tts.py\<close> passes the same five fields to the SDK. The last
  theorem is a base URL that ends with a slash: the URL of the request is not
  \<open>{base_url}/audio/speech\<close>.
\<close>

theorem request_wire_contract:
  assumes "parse_args argv = Inr a"
    and "environ w ''OPENAI_API_KEY'' = Some k" and "k \<noteq> []"
  shows "requests_issued (snd (main3 argv w)) =
       requests_issued w @
         [\<lparr>http_method = ''POST'',
           url = rstrip (get_base_url w) (CHR ''/'') @ ''/audio/speech'',
           json_payload =
             [(''model'', JStr ''gpt-4o-mini-tts''),
              (''voice'', JStr ''alloy''),
              (''input'', JStr (arg_text a)),
              (''instructions'', JStr ''Speak in a cheerful and positive tone.''),
              (''response_format'', JStr (arg_format a))],
           headers =
             [(''Authorization'', ''Bearer '' @ k), (''Content-Type'', ''application/json'')],
           timeout = 60\<rparr>]
     \<and> map create_kwargs (sdk_calls (snd (main1 argv w))) =
         map create_kwargs (sdk_calls w) @
           [[(''model'', ''gpt-4o-mini-tts''),
             (''voice'', ''alloy''),
             (''input'', arg_text a),
             (''instructions'', ''Speak in a cheerful and positive tone.''),
             (''response_format'', arg_format a)]]"
  using main3_requests(1) [OF assms] sdk_mains_calls(1) [OF assms]
  by (simp add: build_request_def request_url_def speech_kwargs_def)

theorem request_wire_contract_witness:
  "requests_issued (snd (main3 [''Hello world'', ''--format'', ''flac'']
       (quiet_world\<lparr>environ := [''OPENAI_API_KEY'' \<mapsto> ''sk-test'',
                                   ''OPENAI_BASE_URL'' \<mapsto> ''http://localhost:8080/v1/'']\<rparr>)))
   = [\<lparr>http_method = ''POST'',
       url = ''http://localhost:8080/v1/audio/speech'',
       json_payload =
         [(''model'', JStr ''gpt-4o-mini-tts''),
          (''voice'', JStr ''alloy''),
          (''input'', JStr ''Hello world''),
          (''instructions'', JStr ''Speak in a cheerful and positive tone.''),
          (''response_format'', JStr ''flac'')],
       headers = [(''Authorization'', ''Bearer sk-test''), (''Content-Type'', ''application/json'')],
       timeout = 60\<rparr>]"
proof -
  let ?a = "\<lparr>arg_text = ''Hello world'', arg_output = ''speech'', arg_format = ''flac''\<rparr>"
  let ?w = "quiet_world\<lparr>environ := [''OPENAI_API_KEY'' \<mapsto> ''sk-test'',
                                   ''OPENAI_BASE_URL'' \<mapsto> ''http://localhost:8080/v1/'']\<rparr>"
  have p: "parse_args [''Hello world'', ''--format'', ''flac''] = Inr ?a" by code_simp
  have k: "environ ?w ''OPENAI_API_KEY'' = Some ''sk-test''" by simp
  have n: "''sk-test'' \<noteq> []" by simp
  have u: "rstrip (get_base_url ?w) (CHR ''/'') = ''http://localhost:8080/v1''"
    by (simp add: get_base_url_def rstrip_def)
  from request_wire_contract [OF p k n] u show ?thesis
    by (simp add: quiet_world_def)
qed

theorem trailing_slash_base_url_is_stripped:
  "get_base_url (quiet_world\<lparr>environ := [''OPENAI_API_KEY'' \<mapsto> ''sk-test'',
                                   ''OPENAI_BASE_URL'' \<mapsto> ''https://api.openai.com/v1/'']\<rparr>)
     = ''https://api.openai.com/v1/''
   \<and> map url (requests_issued (snd (main3 [''Hello world'']
        (quiet_world\<lparr>environ := [''OPENAI_API_KEY'' \<mapsto> ''sk-test'',
                                   ''OPENAI_BASE_URL'' \<mapsto> ''https://api.openai.com/v1/'']\<rparr>))))
     = [''https://api.openai.com/v1/audio/speech'']
   \<and> ''https://api.openai.com/v1/audio/speech'' \<noteq> ''https://api.openai.com/v1/'' @ ''/audio/speech''"
proof -
  let ?a = "\<lparr>arg_text = ''Hello world'', arg_output = ''speech'', arg_format = ''wav''\<rparr>"
  let ?w = "quiet_world\<lparr>environ := [''OPENAI_API_KEY'' \<mapsto> ''sk-test'',
                                   ''OPENAI_BASE_URL'' \<mapsto> ''https://api.openai.com/v1/'']\<rparr>"
  have p: "parse_args [''Hello world''] = Inr ?a" by code_simp
  have k: "environ ?w ''OPENAI_API_KEY'' = Some ''sk-test''" by simp
  have n: "''sk-test'' \<noteq> []" by simp
  have g: "get_base_url ?w = ''https://api.openai.com/v1/''" by (simp add: get_base_url_def)
  have u: "request_url ''https://api.openai.com/v1/'' = ''https://api.openai.com/v1/audio/speech''"
    by (simp add: request_url_def rstrip_def)
  from main3_requests(1) [OF p k n] g u show ?thesis
    by (simp add: quiet_world_def build_request_def)
qed

text \<open>
  C7, as it holds of the scripts. \<open>3-tts.py\<close> and \<open>1-tts.py\<close> issue their request against
  \<open>OPENAI_BASE_URL\<close> when it is set and against \<open>https://api.openai.com/v1\<close> when it is not
  (\<open>1-tts.py\<close> gives its client no base URL, and the client reads the variable);
  \<open>2-tts.py\<close> gives its client the fixed base URL \<open>https://api.openai.com/v1\<close> and so
  issues its request against it, whatever the environment. The last theorem is \<open>2-tts.py\<close>
  with \<open>OPENAI_BASE_URL\<close> set.
\<close>

theorem base_url_per_variant:
  assumes "parse_args argv = Inr a"
    and "environ w ''OPENAI_API_KEY'' = Some k" and "k \<noteq> []"
  shows "map url (requests_issued (snd (main3 argv w))) =
       map url (requests_issued w) @
         [request_url (case environ w ''OPENAI_BASE_URL'' of
                         None \<Rightarrow> ''https://api.openai.com/v1'' | Some u \<Rightarrow> u)]
     \<and> sdk_base_urls (snd (main1 argv w)) =
         sdk_base_urls w @
           [case environ w ''OPENAI_BASE_URL'' of
              None \<Rightarrow> ''https://api.openai.com/v1'' | Some u \<Rightarrow> u]
     \<and> map (\<lambda>c. map_of (client_kwargs c) ''base_url'') (sdk_calls (snd (main1 argv w))) =
         map (\<lambda>c. map_of (client_kwargs c) ''base_url'') (sdk_calls w) @ [None]
     \<and> sdk_base_urls (snd (main2 argv w)) = sdk_base_urls w @ [''https://api.openai.com/v1'']
     \<and> map (\<lambda>c. map_of (client_kwargs c) ''base_url'') (sdk_calls (snd (main2 argv w))) =
         map (\<lambda>c. map_of (client_kwargs c) ''base_url'') (sdk_calls w)
           @ [Some ''https://api.openai.com/v1'']"
  using main3_requests(1) [OF assms] sdk_mains_calls [OF assms] sdk_mains_base_urls [OF assms]
  by (simp add: build_request_def get_base_url_def DEFAULT_OPENAI_BASE_URL_def OPENAI_BASE_URL_def
        client_base_url_def
        cong: option.case_cong)

theorem base_url_per_variant_witness:
  "map url (requests_issued (snd (main3 [''Hello world'']
       (quiet_world\<lparr>environ := [''OPENAI_API_KEY'' \<mapsto> ''sk-test'',
                                   ''OPENAI_BASE_URL'' \<mapsto> ''http://localhost:8080/v1'']\<rparr>))))
     = [''http://localhost:8080/v1/audio/speech'']
   \<and> map url (requests_issued (snd (main3 [''Hello world'']
       (quiet_world\<lparr>environ := [''OPENAI_API_KEY'' \<mapsto> ''sk-test'']\<rparr>))))
     = [''https://api.openai.com/v1/audio/speech'']
   \<and> sdk_base_urls (snd (main1 [''Hello world'']
       (quiet_world\<lparr>environ := [''OPENAI_API_KEY'' \<mapsto> ''sk-test'',
                                   ''OPENAI_BASE_URL'' \<mapsto> ''http://localhost:8080/v1'']\<rparr>)))
     = [''http://localhost:8080/v1'']
   \<and> sdk_base_urls (snd (main1 [''Hello world'']
       (quiet_world\<lparr>environ := [''OPENAI_API_KEY'' \<mapsto> ''sk-test'']\<rparr>)))
     = [''https://api.openai.com/v1'']"
proof -
  let ?a = "\<lparr>arg_text = ''Hello world'', arg_output = ''speech'', arg_format = ''wav''\<rparr>"
  let ?w = "quiet_world\<lparr>environ := [''OPENAI_API_KEY'' \<mapsto> ''sk-test'',
                                   ''OPENAI_BASE_URL'' \<mapsto> ''http://localhost:8080/v1'']\<rparr>"
  let ?v = "quiet_world\<lparr>environ := [''OPENAI_API_KEY'' \<mapsto> ''sk-test'']\<rparr>"
  have p: "parse_args [''Hello world''] = Inr ?a" by code_simp
  have k: "environ ?w ''OPENAI_API_KEY'' = Some ''sk-test''" by simp
  have k': "environ ?v ''OPENAI_API_KEY'' = Some ''sk-test''" by simp
  have n: "''sk-test'' \<noteq> []" by simp
  have u: "request_url ''http://localhost:8080/v1'' = ''http://localhost:8080/v1/audio/speech''"
    "request_url ''https://api.openai.com/v1'' = ''https://api.openai.com/v1/audio/speech''"
    by (simp_all add: request_url_def rstrip_def)
  from base_url_per_variant [OF p k n] base_url_per_variant [OF p k' n] u show ?thesis
    by (simp add: quiet_world_def)
qed

theorem variant2_ignores_base_url_variable:
  "environ (quiet_world\<lparr>environ := [''OPENAI_API_KEY'' \<mapsto> ''sk-test'',
                                   ''OPENAI_BASE_URL'' \<mapsto> ''http://localhost:8080/v1'']\<rparr>)
       ''OPENAI_BASE_URL'' = Some ''http://localhost:8080/v1''
   \<and> map (\<lambda>c. map_of (client_kwargs c) ''base_url'')
       (sdk_calls (snd (main2 [''Hello world'']
          (quiet_world\<lparr>environ := [''OPENAI_API_KEY'' \<mapsto> ''sk-test'',
                                      ''OPENAI_BASE_URL'' \<mapsto> ''http://localhost:8080/v1'']\<rparr>))))
     = [Some ''https://api.openai.com/v1'']
   \<and> sdk_base_urls (snd (main2 [''Hello world'']
          (quiet_world\<lparr>environ := [''OPENAI_API_KEY'' \<mapsto> ''sk-test'',
                                      ''OPENAI_BASE_URL'' \<mapsto> ''http://localhost:8080/v1'']\<rparr>)))
     = [''https://api.openai.com/v1'']"
proof -
  let ?a = "\<lparr>arg_text = ''Hello world'', arg_output = ''speech'', arg_format = ''wav''\<rparr>"
  let ?w = "quiet_world\<lparr>environ := [''OPENAI_API_KEY'' \<mapsto> ''sk-test'',
                                   ''OPENAI_BASE_URL'' \<mapsto> ''http://localhost:8080/v1'']\<rparr>"
  have p: "parse_args [''Hello world''] = Inr ?a" by code_simp
  have k: "environ ?w ''OPENAI_API_KEY'' = Some ''sk-test''" by simp
  have n: "''sk-test'' \<noteq> []" by simp
  from sdk_mains_calls(2) [OF p k n] sdk_mains_base_urls(2) [OF p k n] show ?thesis
    by (simp add: quiet_world_def OPENAI_BASE_URL_def client_base_url_def)
qed

text \<open>
  C8, as it holds of the scripts. \<open>3-tts.py\<close> issues its request with the fixed timeout of
  60 seconds, so the wait for the server is bounded by 60 seconds, and a request on which
  the server stays silent for longer fails as a timeout error: the run ends with status 1
  and the diagnostic of a network error, and writes no file; a request that stays within
  the bound ends as the server answers it. \<open>1-tts.py\<close> and \<open>2-tts.py\<close> pass no timeout to
  the client or to the call. The last theorem is the SDK call of those two scripts.
\<close>

theorem timeout_per_variant:
  assumes "parse_args argv = Inr a"
    and "environ w ''OPENAI_API_KEY'' = Some k" and "k \<noteq> []"
  shows "map timeout (requests_issued (snd (main3 argv w))) = map timeout (requests_issued w) @ [60]
     \<and> (\<exists>d. waited (snd (main3 argv w)) = waited w @ [d] \<and> d \<le> 60)
     \<and> (60 < silence w (tts_request w k a) \<longrightarrow>
            tts_answer w k a = Inl (RequestException (timeout_cause w (tts_request w k a)))
          \<and> fst (main3 argv w) = 1
          \<and> stderr (snd (main3 argv w)) =
              stderr w @ [Written (''Network error while contacting '' @ request_url (get_base_url w)
                                     @ '': '' @ timeout_cause w (tts_request w k a) @ [CHR 0x0A])]
          \<and> files (snd (main3 argv w)) = files w)
     \<and> (silence w (tts_request w k a) \<le> 60 \<longrightarrow>
            tts_answer w k a = post w (tts_request w k a))
     \<and> (\<forall>run \<in> {main1, main2}.
           \<exists>c. sdk_calls (snd (run argv w)) = sdk_calls w @ [c]
              \<and> map_of (client_kwargs c) ''timeout'' = None
              \<and> map_of (create_kwargs c) ''timeout'' = None)"
proof -
  have t60: "timeout (tts_request w k a) = 60"
    by (simp add: tts_request_def build_request_def)
  have m: "main3 argv w = main3_body a w" using assms(1) by (simp add: main3_def)
  note b = main3_body_answer [OF assms(2,3), of a]
  have 1: "map timeout (requests_issued (snd (main3 argv w))) = map timeout (requests_issued w) @ [60]"
    using main3_requests(1) [OF assms] by (simp add: build_request_def)
  have 2: "\<exists>d. waited (snd (main3 argv w)) = waited w @ [d] \<and> d \<le> 60"
    using main3_requests(2) [OF assms] by (simp add: t60)
  have ans: "tts_answer w k a =
      (if 60 < silence w (tts_request w k a)
       then Inl (RequestException (timeout_cause w (tts_request w k a)))
       else post w (tts_request w k a))"
    by (simp add: tts_answer_def requests_post_def t60)
  have 3: "tts_answer w k a = Inl (RequestException (timeout_cause w (tts_request w k a)))
          \<and> fst (main3 argv w) = 1
          \<and> stderr (snd (main3 argv w)) =
              stderr w @ [Written (''Network error while contacting '' @ request_url (get_base_url w)
                                     @ '': '' @ timeout_cause w (tts_request w k a) @ [CHR 0x0A])]
          \<and> files (snd (main3 argv w)) = files w"
    if late: "60 < silence w (tts_request w k a)"
  proof -
    from ans late
    have a: "tts_answer w k a = Inl (RequestException (timeout_cause w (tts_request w k a)))"
      by simp
    show ?thesis unfolding m b a by (simp add: Let_def stderr_write_def)
  qed
  have 4: "tts_answer w k a = post w (tts_request w k a)"
    if "silence w (tts_request w k a) \<le> 60"
    using ans that by simp
  have 5: "\<forall>run \<in> {main1, main2}.
           \<exists>c. sdk_calls (snd (run argv w)) = sdk_calls w @ [c]
              \<and> map_of (client_kwargs c) ''timeout'' = None
              \<and> map_of (create_kwargs c) ''timeout'' = None"
    using sdk_mains_calls [OF assms] by (simp add: speech_kwargs_def)
  from 1 2 3 4 5 show ?thesis by blast
qed

theorem timeout_per_variant_witness:
  "map timeout (requests_issued (snd (main3 [''Hello world'']
       (quiet_world\<lparr>environ := [''OPENAI_API_KEY'' \<mapsto> ''sk-test'']\<rparr>)))) = [60]
   \<and> fst (main3 [''Hello world'']
       (quiet_world\<lparr>environ := [''OPENAI_API_KEY'' \<mapsto> ''sk-test''],
          post := (\<lambda>req. Inr \<lparr>status_code = 200, content = ''RIFF...'',
                               body_text = ''RIFF...'', body_json = None\<rparr>),
          silence := (\<lambda>req. 75)\<rparr>)) = 1
   \<and> stderr (snd (main3 [''Hello world'']
       (quiet_world\<lparr>environ := [''OPENAI_API_KEY'' \<mapsto> ''sk-test''],
          post := (\<lambda>req. Inr \<lparr>status_code = 200, content = ''RIFF...'',
                               body_text = ''RIFF...'', body_json = None\<rparr>),
          silence := (\<lambda>req. 75)\<rparr>)))
     = [Written (''Network error while contacting https://api.openai.com/v1/audio/speech: ''
                 @ ''Read timed out. (read timeout=60)'' @ [CHR 0x0A])]
   \<and> files (snd (main3 [''Hello world'']
       (quiet_world\<lparr>environ := [''OPENAI_API_KEY'' \<mapsto> ''sk-test''],
          post := (\<lambda>req. Inr \<lparr>status_code = 200, content = ''RIFF...'',
                               body_text = ''RIFF...'', body_json = None\<rparr>),
          silence := (\<lambda>req. 75)\<rparr>))) = Map.empty
   \<and> waited (snd (main3 [''Hello world'']
       (quiet_world\<lparr>environ := [''OPENAI_API_KEY'' \<mapsto> ''sk-test''],
          post := (\<lambda>req. Inr \<lparr>status_code = 200, content = ''RIFF...'',
                               body_text = ''RIFF...'', body_json = None\<rparr>),
          silence := (\<lambda>req. 75)\<rparr>))) = [60]"
proof -
  let ?a = "\<lparr>arg_text = ''Hello world'', arg_output = ''speech'', arg_format = ''wav''\<rparr>"
  let ?v = "quiet_world\<lparr>environ := [''OPENAI_API_KEY'' \<mapsto> ''sk-test'']\<rparr>"
  let ?w = "quiet_world\<lparr>environ := [''OPENAI_API_KEY'' \<mapsto> ''sk-test''],
          post := (\<lambda>req. Inr \<lparr>status_code = 200, content = ''RIFF...'',
                               body_text = ''RIFF...'', body_json = None\<rparr>),
          silence := (\<lambda>req. 75)\<rparr>"
  have p: "parse_args [''Hello world''] = Inr ?a" by code_simp
  have k: "environ ?v ''OPENAI_API_KEY'' = Some ''sk-test''" by simp
  have k': "environ ?w ''OPENAI_API_KEY'' = Some ''sk-test''" by simp
  have n: "''sk-test'' \<noteq> []" by simp
  have late: "60 < silence ?w (tts_request ?w ''sk-test'' ?a)" by simp
  have u: "request_url (get_base_url ?w) = ''https://api.openai.com/v1/audio/speech''"
    by (simp add: get_base_url_def quiet_world_def DEFAULT_OPENAI_BASE_URL_def request_url_def rstrip_def)
  have c: "timeout_cause ?w (tts_request ?w ''sk-test'' ?a) = ''Read timed out. (read timeout=60)''"
    by (simp add: quiet_world_def)
  have wt: "waited (snd (main3 [''Hello world''] ?w)) = [60]"
    using main3_requests(2) [OF p k' n]
    by (simp add: quiet_world_def tts_request_def build_request_def)
  from timeout_per_variant [OF p k n] timeout_per_variant [OF p k' n] late u c wt show ?thesis
    by (simp add: quiet_world_def)
qed

theorem sdk_variants_pass_no_timeout:
  "map (\<lambda>c. (map_of (client_kwargs c) ''timeout'', map_of (create_kwargs c) ''timeout''))
       (sdk_calls (snd (main1 [''Hello world'']
          (quiet_world\<lparr>environ := [''OPENAI_API_KEY'' \<mapsto> ''sk-test'']\<rparr>))))
     = [(None, None)]
   \<and> map (\<lambda>c. (map_of (client_kwargs c) ''timeout'', map_of (create_kwargs c) ''timeout''))
       (sdk_calls (snd (main2 [''Hello world'']
          (quiet_world\<lparr>environ := [''OPENAI_API_KEY'' \<mapsto> ''sk-test'']\<rparr>))))
     = [(None, None)]"
proof -
  let ?a = "\<lparr>arg_text = ''Hello world'', arg_output = ''speech'', arg_format = ''wav''\<rparr>"
  let ?v = "quiet_world\<lparr>environ := [''OPENAI_API_KEY'' \<mapsto> ''sk-test'']\<rparr>"
  have p: "parse_args [''Hello world''] = Inr ?a" by code_simp
  have k: "environ ?v ''OPENAI_API_KEY'' = Some ''sk-test''" by simp
  have n: "''sk-test'' \<noteq> []" by simp
  from sdk_mains_calls [OF p k n] show ?thesis
    by (simp add: quiet_world_def speech_kwargs_def)
qed




end
